theory Spec2Isabelle
  imports Complex_Main "HOL-Library.Multiset" "HOL-Library.Char_ord"
    "HOL-Library.List_Lexorder"
begin

section \<open>Python values shared by the notebook cells\<close>

text \<open>
  The notebook \<^verbatim>\<open>SageMaker_Customer_Churn_XGB_Pipeline.ipynb\<close> is a sequence of cells.
  Each cell that carries logic is embedded as a function.  Calls into the managed
  platform are inputs of the cell (the value or the exception the call produced); what
  the cell prints, logs and sleeps is returned as a list of events, in program order.
\<close>

datatype py_error =
    ClientError string string  \<comment> \<open>botocore ClientError: \<open>Error.Code\<close>, \<open>Error.Message\<close>\<close>
  | KeyError string
  | IndexError
  | EmptyDataError
  | Exception string
  | OtherError string

datatype event =
    Print string
  | LogInfo string
  | Sleep nat
  | Call string

text \<open>
  The state of a cell that waits: it returned a value, it raised, or it is still inside
  its loop after every observation supplied so far has been consumed.
\<close>

datatype 'a outcome = Running | Raised py_error | Returned 'a

text \<open>Python's \<^verbatim>\<open>needle in haystack\<close> on strings.\<close>

fun str_contains :: "string \<Rightarrow> string \<Rightarrow> bool" where
  "str_contains needle [] = (needle = [])"
| "str_contains needle (c # cs) =
     (take (length needle) (c # cs) = needle \<or> str_contains needle cs)"

section \<open>Cell 24: creating the pipeline\<close>

text \<open>
  \<^verbatim>\<open>
  try:
      response = pipeline.create(role_arn=role)
  except ClientError as e:
      error = e.response["Error"]
      if error["Code"] == "ValidationError" and "Pipeline names must be unique within" in error["Message"]:
          print(error["Message"])
          response = pipeline.describe()
      else:
          raise
  \<close>
  \<open>create\<close> is what \<^verbatim>\<open>pipeline.create\<close> did, \<open>describe\<close> what \<^verbatim>\<open>pipeline.describe\<close> does
  if it is called.  The result is the value bound to \<^verbatim>\<open>response\<close>, or the exception that
  leaves the statement.
\<close>

definition create_pipeline ::
  "(py_error + 'r) \<Rightarrow> (py_error + 'r) \<Rightarrow> event list \<times> (py_error + 'r)" where
  "create_pipeline create describe =
     (case create of
        Inr response \<Rightarrow> ([Call ''pipeline.create''], Inr response)
      | Inl (ClientError code message) \<Rightarrow>
          if code = ''ValidationError''
             \<and> str_contains ''Pipeline names must be unique within'' message
          then ([Call ''pipeline.create'', Print message, Call ''pipeline.describe''], describe)
          else ([Call ''pipeline.create''], Inl (ClientError code message))
      | Inl e \<Rightarrow> ([Call ''pipeline.create''], Inl e))"

section \<open>Cell 27: waiting for the pipeline execution\<close>

text \<open>
  \<^verbatim>\<open>
  while True:
      resp = sm_client.describe_pipeline_execution(PipelineExecutionArn=pipeline_execution_arn)
      if resp['PipelineExecutionStatus'] == 'Executing':
          print('Running...')
      else:
          print(resp['PipelineExecutionStatus'], pipeline_execution_arn)
          break
      time.sleep(15)
  \<close>
  The list holds what the successive describe calls did: the \<^verbatim>\<open>PipelineExecutionStatus\<close>
  of the response, or the exception the call raised.  When the list is used up and the
  loop has not left, the outcome is \<open>Running\<close>.
\<close>

fun poll_execution :: "string \<Rightarrow> (py_error + string) list \<Rightarrow> event list \<times> string outcome" where
  "poll_execution arn [] = ([], Running)"
| "poll_execution arn (Inl e # rest) = ([Call ''describe_pipeline_execution''], Raised e)"
| "poll_execution arn (Inr status # rest) =
     (if status = ''Executing''
      then (let (evs, out) = poll_execution arn rest
            in ([Call ''describe_pipeline_execution'', Print ''Running...'', Sleep 15] @ evs, out))
      else ([Call ''describe_pipeline_execution'', Print (status @ '' '' @ arn)],
            Returned status))"

section \<open>Cells 62 and 63: waiting for the endpoint\<close>

record endpoint_description =
  EndpointStatus :: string
  FailureReason :: "string option"  \<comment> \<open>the key may be absent from the response\<close>

text \<open>
  The \<^verbatim>\<open>while (status == 'Creating')\<close> loop of \<^verbatim>\<open>wait_for_response\<close>.  \<^verbatim>\<open>status\<close> starts as
  \<^verbatim>\<open>'Creating'\<close>, so the body runs for the first call.  The list holds what the successive
  \<^verbatim>\<open>describe_endpoint\<close> calls did: the response, or the exception the call raised.  The
  loop returns the status it left with.
\<close>

fun wait_loop ::
  "nat \<Rightarrow> (py_error + endpoint_description) list \<Rightarrow> event list \<times> string outcome" where
  "wait_loop poll_interval [] = ([], Running)"
| "wait_loop poll_interval (Inl e # rest) = ([Call ''describe_endpoint''], Raised e)"
| "wait_loop poll_interval (Inr response # rest) =
     (let status = EndpointStatus response;
          seen = [Call ''describe_endpoint'',
                  Print (''Creating job is still in status: '' @ status @ '' ...'')]
      in if status = ''Failed''
         then (case FailureReason response of
                 None \<Rightarrow> (seen, Raised (KeyError ''FailureReason''))
               | Some message \<Rightarrow>
                   (seen @ [LogInfo (''Endpoint Creation failed with the following error: '' @ message),
                            Print (''Endpoint failed with the following error: '' @ message)],
                    Raised (Exception ''Creating Endpoint failed'')))
         else (let slept = seen @ [LogInfo (''Creating job is still in status: '' @ status),
                                   Sleep poll_interval]
               in if status = ''Creating''
                  then (let (evs, out) = wait_loop poll_interval rest in (slept @ evs, out))
                  else (slept, Returned status)))"

definition wait_for_response ::
  "nat \<Rightarrow> (py_error + endpoint_description) list \<Rightarrow> event list \<times> unit outcome" where
  "wait_for_response poll_interval responses =
     (case wait_loop poll_interval responses of
        (evs, Running) \<Rightarrow> (evs, Running)
      | (evs, Raised e) \<Rightarrow> (evs, Raised e)
      | (evs, Returned status) \<Rightarrow>
          if status = ''InService''
          then (evs @ [LogInfo (''Creating job ended with status: '' @ status),
                       Print (''Creating job ended with status: '' @ status)],
                Returned ())
          else (evs, Raised (Exception ''Creating job stopped'')))"

text \<open>Cell 63: \<^verbatim>\<open>wait_for_response(sm_client, endpoint_name, poll_interval=30)\<close>.\<close>

definition wait_for_endpoint ::
  "(py_error + endpoint_description) list \<Rightarrow> event list \<times> unit outcome" where
  "wait_for_endpoint responses = wait_for_response 30 responses"

subsection \<open>The statuses of the platform\<close>

text \<open>
  The notebook names three statuses.  The platform's API reference lists more: a pipeline
  execution is \<^verbatim>\<open>Executing\<close>, \<^verbatim>\<open>Stopping\<close>, \<^verbatim>\<open>Stopped\<close>, \<^verbatim>\<open>Failed\<close> or \<^verbatim>\<open>Succeeded\<close>, and
  stays in each of the last three once it is there; an endpoint is \<^verbatim>\<open>OutOfService\<close>,
  \<^verbatim>\<open>Creating\<close>, \<^verbatim>\<open>Updating\<close>, \<^verbatim>\<open>SystemUpdating\<close>, \<^verbatim>\<open>RollingBack\<close>, \<^verbatim>\<open>InService\<close>,
  \<^verbatim>\<open>Deleting\<close>, \<^verbatim>\<open>Failed\<close> or \<^verbatim>\<open>UpdateRollbackFailed\<close>, of which \<^verbatim>\<open>Creating\<close>,
  \<^verbatim>\<open>Updating\<close>, \<^verbatim>\<open>SystemUpdating\<close>, \<^verbatim>\<open>RollingBack\<close> and \<^verbatim>\<open>Deleting\<close> pass by themselves.
\<close>

definition execution_terminal :: "string \<Rightarrow> bool" where
  "execution_terminal status \<longleftrightarrow> status \<in> {''Stopped'', ''Failed'', ''Succeeded''}"

definition endpoint_terminal :: "string \<Rightarrow> bool" where
  "endpoint_terminal status
   \<longleftrightarrow> status \<in> {''InService'', ''OutOfService'', ''Failed'', ''UpdateRollbackFailed''}"

text \<open>The text an exception carries.\<close>

fun error_text :: "py_error \<Rightarrow> string" where
  "error_text (ClientError code message) = message"
| "error_text (KeyError k) = k"
| "error_text IndexError = ''list index out of range''"
| "error_text EmptyDataError = ''No columns to parse from file''"
| "error_text (Exception message) = message"
| "error_text (OtherError message) = message"

section \<open>Cells 29 and 33: approving the latest model package\<close>

record model_package_summary =
  ModelPackageArn :: string
  CreationTime :: int
  ModelApprovalStatus :: string

text \<open>
  Python's \<^verbatim>\<open>sorted(xs, key=k, reverse=True)\<close>: descending by key, and elements with equal
  keys keep their original order.
\<close>

definition sorted_reverse :: "('a \<Rightarrow> 'k::linorder) \<Rightarrow> 'a list \<Rightarrow> 'a list" where
  "sorted_reverse k xs = rev (sort_key k (rev xs))"

text \<open>
  \<^verbatim>\<open>
  packages = sorted(packages, key=lambda x: x['CreationTime'], reverse=True)
  latest_model_package_arn = packages[0]['ModelPackageArn']
  \<close>
  where \<open>packages\<close> is the \<^verbatim>\<open>ModelPackageSummaryList\<close> the platform listed.
\<close>

definition latest_model_package_arn :: "model_package_summary list \<Rightarrow> py_error + string" where
  "latest_model_package_arn packages =
     (case sorted_reverse CreationTime packages of
        [] \<Rightarrow> Inl IndexError
      | p # _ \<Rightarrow> Inr (ModelPackageArn p))"

text \<open>
  The platform's \<^verbatim>\<open>update_model_package(ModelPackageArn=arn, ModelApprovalStatus=s)\<close>: the
  package with that ARN gets the status, no other field and no other package changes.
\<close>

definition update_model_package ::
  "string \<Rightarrow> string \<Rightarrow> model_package_summary list \<Rightarrow> model_package_summary list" where
  "update_model_package arn s registry =
     map (\<lambda>p. if ModelPackageArn p = arn then p\<lparr>ModelApprovalStatus := s\<rparr> else p) registry"

text \<open>Cells 29 and 33 in sequence, on the packages of the group.\<close>

definition approve_latest ::
  "model_package_summary list \<Rightarrow> py_error + (string \<times> model_package_summary list)" where
  "approve_latest registry =
     (case latest_model_package_arn registry of
        Inl e \<Rightarrow> Inl e
      | Inr arn \<Rightarrow> Inr (arn, update_model_package arn ''Approved'' registry))"

section \<open>Cell 14: the evaluation script\<close>

text \<open>
  A cell of a table: an integer, a float (every finite float is a rational) or a string.
  A CSV file written with \<^verbatim>\<open>header=False, index=False\<close> and read back with
  \<^verbatim>\<open>header=None\<close> is its list of rows; the text encoding in between is not modelled.
\<close>

datatype cell = IntV int | FloatV rat | StrV string

type_synonym csv = "cell list list"

datatype json = JNumber rat | JString string | JObject "(string \<times> json) list"

text \<open>numpy's \<^verbatim>\<open>round()\<close> with no decimals: to the nearest integer, halves to the even one.\<close>

definition np_round :: "rat \<Rightarrow> rat" where
  "np_round x =
     (let f = \<lfloor>x\<rfloor>; d = x - of_int f
      in if d < 1 / 2 then of_int f
         else if 1 / 2 < d then of_int (f + 1)
         else if even f then of_int f else of_int (f + 1))"

text \<open>
  \<^verbatim>\<open>
  report_dict = {
      "binary_classification_metrics": {
          "accuracy": {"value": acc, "standard_deviation": "NaN"},
          "auc": {"value": auc, "standard_deviation": "NaN"},
      },
  }
  \<close>
\<close>

definition report_dict :: "rat \<Rightarrow> rat \<Rightarrow> json" where
  "report_dict acc auc =
     JObject [(''binary_classification_metrics'',
       JObject [(''accuracy'', JObject [(''value'', JNumber acc),
                                        (''standard_deviation'', JString ''NaN'')]),
                (''auc'', JObject [(''value'', JNumber auc),
                                   (''standard_deviation'', JString ''NaN'')])])]"

text \<open>
  \<^verbatim>\<open>
  y_test = df.iloc[:, 0].to_numpy()
  df.drop(df.columns[0], axis=1, inplace=True)
  \<close>
  on the frame read from \<^verbatim>\<open>test.csv\<close>, whose rows all have the width of the first one.
  An empty file makes \<^verbatim>\<open>read_csv\<close> raise; a file of empty lines has no column 0.
\<close>

definition read_test :: "csv \<Rightarrow> py_error + (cell list \<times> cell list list)" where
  "read_test rows =
     (case rows of
        [] \<Rightarrow> Inl EmptyDataError
      | first # _ \<Rightarrow>
          if first = [] then Inl EmptyDataError
          else Inr (map hd rows, map tl rows))"

text \<open>
  The script.  The collaborators are arguments: \<open>load_model\<close> is the unpickled booster
  (or the exception opening the archive raised), as the function from the feature matrix
  to the predictions that \<^verbatim>\<open>model.predict(xgboost.DMatrix(df.values))\<close> computes;
  \<open>accuracy_score\<close> and \<open>roc_auc_score\<close> are scikit-learn's.  The result is the JSON
  value written to \<^verbatim>\<open>/opt/ml/processing/evaluation/evaluation.json\<close>.
\<close>

definition evaluate ::
  "(py_error + (cell list list \<Rightarrow> py_error + rat list))
   \<Rightarrow> (cell list \<Rightarrow> rat list \<Rightarrow> py_error + rat)
   \<Rightarrow> (cell list \<Rightarrow> rat list \<Rightarrow> py_error + rat)
   \<Rightarrow> csv \<Rightarrow> py_error + json" where
  "evaluate load_model accuracy_score roc_auc_score test_csv =
     (case load_model of
        Inl e \<Rightarrow> Inl e
      | Inr predict \<Rightarrow>
     (case read_test test_csv of
        Inl e \<Rightarrow> Inl e
      | Inr (y_test, X_test) \<Rightarrow>
     (case predict X_test of
        Inl e \<Rightarrow> Inl e
      | Inr predictions \<Rightarrow>
     (case accuracy_score y_test (map np_round predictions) of
        Inl e \<Rightarrow> Inl e
      | Inr acc \<Rightarrow>
     (case roc_auc_score y_test (map np_round predictions) of
        Inl e \<Rightarrow> Inl e
      | Inr auc \<Rightarrow> Inr (report_dict acc auc))))))"

text \<open>
  \<^verbatim>\<open>evaluation_output_path = '/opt/ml/processing/evaluation/evaluation.json'\<close>, the file
  the script writes the report to.
\<close>

definition evaluation_output_path :: string where
  "evaluation_output_path = ''/opt/ml/processing/evaluation/evaluation.json''"

text \<open>The numbers a JSON value holds, each with the path of keys that leads to it.\<close>

fun numbers :: "json \<Rightarrow> (string list \<times> rat) list"
  and numbers_fields :: "(string \<times> json) list \<Rightarrow> (string list \<times> rat) list" where
  "numbers (JNumber r) = [([], r)]"
| "numbers (JString s) = []"
| "numbers (JObject kvs) = numbers_fields kvs"
| "numbers_fields [] = []"
| "numbers_fields (kv # kvs) =
     map (\<lambda>(p, r). (fst kv # p, r)) (numbers (snd kv)) @ numbers_fields kvs"

section \<open>Cell 22: the pipeline definition\<close>

record property_file =
  pf_name :: string
  output_name :: string
  path :: string

record json_get =
  step_name :: string
  property_file :: property_file
  json_path :: string

datatype condition = ConditionGreaterThanOrEqualTo json_get rat

text \<open>
  A value that a step takes from the properties of another step:
  \<^verbatim>\<open>step.properties.ModelArtifacts.S3ModelArtifacts\<close> or
  \<^verbatim>\<open>step.properties.ProcessingOutputConfig.Outputs[name].S3Output.S3Uri\<close>.
\<close>

datatype reference =
    ModelArtifacts string  \<comment> \<open>the step's name\<close>
  | ProcessingOutputUri string string  \<comment> \<open>the step's name, the output's name\<close>

datatype step =
    ProcessingStep string string "(reference \<times> string) list" "(string \<times> string) list"
      "property_file list"
      \<comment> \<open>name, code, inputs (source, destination), outputs (output name, source
         directory), property files\<close>
  | TrainingStep string "(string \<times> reference) list"
      \<comment> \<open>name, inputs (channel, data)\<close>
  | RegisterModel string string reference string
      \<comment> \<open>name, model package group, model data, the parameter that gives the
         approval status\<close>
  | ConditionStep string "condition list" "step list" "step list"
      \<comment> \<open>name, conditions, if_steps, else_steps\<close>

fun name :: "step \<Rightarrow> string" where
  "name (ProcessingStep n _ _ _ _) = n"
| "name (TrainingStep n _) = n"
| "name (RegisterModel n _ _ _) = n"
| "name (ConditionStep n _ _ _) = n"

datatype parameter = ParameterInteger string int | ParameterString string string

record pipeline =
  pipeline_name :: string
  parameters :: "parameter list"
  steps :: "step list"

definition model_package_group_name :: string where
  "model_package_group_name = ''CustomerChurnPackageGroup''"

definition step_process :: step where
  "step_process =
     ProcessingStep ''CustomerChurnProcess'' ''preprocess.py'' []
       [(''train'', ''/opt/ml/processing/train''),
        (''validation'', ''/opt/ml/processing/validation''),
        (''test'', ''/opt/ml/processing/test'')]
       []"

definition step_train :: step where
  "step_train =
     TrainingStep ''CustomerChurnTrain''
       [(''train'', ProcessingOutputUri (name step_process) ''train''),
        (''validation'', ProcessingOutputUri (name step_process) ''validation'')]"

definition evaluation_report :: property_file where
  "evaluation_report =
     \<lparr>pf_name = ''EvaluationReport'', output_name = ''evaluation'', path = ''evaluation.json''\<rparr>"

definition step_eval :: step where
  "step_eval =
     ProcessingStep ''CustomerChurnEval'' ''evaluate.py''
       [(ModelArtifacts (name step_train), ''/opt/ml/processing/model''),
        (ProcessingOutputUri (name step_process) ''test'', ''/opt/ml/processing/test'')]
       [(''evaluation'', ''/opt/ml/processing/evaluation'')]
       [evaluation_report]"

definition step_register :: step where
  "step_register =
     RegisterModel ''CustomerChurnRegisterModel'' model_package_group_name
       (ModelArtifacts (name step_train)) ''ModelApprovalStatus''"

definition cond_lte :: condition where
  "cond_lte =
     ConditionGreaterThanOrEqualTo
       \<lparr>step_name = name step_eval, property_file = evaluation_report,
        json_path = ''binary_classification_metrics.accuracy.value''\<rparr>
       (8 / 10)"

definition step_cond :: step where
  "step_cond = ConditionStep ''CustomerChurnAccuracyCond'' [cond_lte] [step_register] []"

text \<open>
  The pipeline instance.  Its name carries the minute and second of the clock and the
  default of \<^verbatim>\<open>InputDataUrl\<close> the session's bucket; both are arguments.
\<close>

definition pipeline :: "string \<Rightarrow> string \<Rightarrow> pipeline" where
  "pipeline pname bucket =
     \<lparr>pipeline_name = pname,
      parameters =
        [ParameterString ''ProcessingInstanceType'' ''ml.m5.xlarge'',
         ParameterInteger ''ProcessingInstanceCount'' 1,
         ParameterString ''TrainingInstanceType'' ''ml.m5.xlarge'',
         ParameterString ''ModelApprovalStatus'' ''Approved'',
         ParameterString ''InputDataUrl''
           (''s3://'' @ bucket @ ''/sagemaker/DEMO-xgboost-churn/data/RawData.csv'')],
      steps = [step_process, step_train, step_eval, step_cond]\<rparr>"

subsection \<open>What the platform does with a condition step\<close>

text \<open>
  The notebook only declares the condition step; the platform runs it.  These
  definitions write down the documented meaning of the declaration: \<^verbatim>\<open>JsonGet\<close> follows
  the dot-separated path into the property file, the condition compares the number found
  there with the right-hand side, and the step continues with \<open>if_steps\<close> when every
  condition holds and with \<open>else_steps\<close> otherwise.  A path that leads to no number
  fails the step (\<open>None\<close>).
\<close>

fun split_on :: "char \<Rightarrow> string \<Rightarrow> string list" where
  "split_on sep [] = [[]]"
| "split_on sep (c # cs) =
     (let r = split_on sep cs
      in if c = sep then [] # r else (c # hd r) # tl r)"

fun json_lookup :: "string list \<Rightarrow> json \<Rightarrow> json option" where
  "json_lookup [] j = Some j"
| "json_lookup (k # ks) (JObject kvs) =
     (case map_of kvs k of None \<Rightarrow> None | Some v \<Rightarrow> json_lookup ks v)"
| "json_lookup (k # ks) _ = None"

fun condition_holds :: "json \<Rightarrow> condition \<Rightarrow> bool option" where
  "condition_holds report (ConditionGreaterThanOrEqualTo left right) =
     (case json_lookup (split_on CHR ''.'' (json_path left)) report of
        Some (JNumber v) \<Rightarrow> Some (right \<le> v)
      | _ \<Rightarrow> None)"

fun selected_steps :: "json \<Rightarrow> step \<Rightarrow> step list option" where
  "selected_steps report (ConditionStep _ conditions if_steps else_steps) =
     (let outcomes = map (condition_holds report) conditions
      in if None \<in> set outcomes then None
         else if \<forall>b \<in> set outcomes. b = Some True then Some if_steps
         else Some else_steps)"
| "selected_steps report _ = None"

text \<open>
  A \<^verbatim>\<open>RegisterModel\<close> step that runs adds a package to its group; the packages of the
  group after the condition step has run.
\<close>

definition group_after_condition ::
  "json \<Rightarrow> model_package_summary \<Rightarrow> model_package_summary list
   \<Rightarrow> model_package_summary list option" where
  "group_after_condition report new packages =
     (case selected_steps report step_cond of
        None \<Rightarrow> None
      | Some chosen \<Rightarrow> Some (if step_register \<in> set chosen then packages @ [new] else packages))"

text \<open>
  The steps a run of the pipeline executes, in the order of the list: a condition step is
  followed by the steps it selects, any other step stands for itself.  (The platform
  does not nest condition steps.)
\<close>

fun run_step :: "json \<Rightarrow> step \<Rightarrow> step list option" where
  "run_step report (ConditionStep n conditions if_steps else_steps) =
     (case selected_steps report (ConditionStep n conditions if_steps else_steps) of
        None \<Rightarrow> None
      | Some chosen \<Rightarrow> Some (ConditionStep n conditions if_steps else_steps # chosen))"
| "run_step report s = Some [s]"

fun run_steps :: "json \<Rightarrow> step list \<Rightarrow> step list option" where
  "run_steps report [] = Some []"
| "run_steps report (s # ss) =
     (case run_step report s of
        None \<Rightarrow> None
      | Some xs \<Rightarrow>
          (case run_steps report ss of None \<Rightarrow> None | Some ys \<Rightarrow> Some (xs @ ys)))"

text \<open>
  The steps whose properties a step reads.  The platform runs a step after all of these;
  \<open>in_order\<close> says that the order of a list of steps agrees with that, the steps of a
  branch coming after their condition step.
\<close>

fun referenced :: "reference \<Rightarrow> string" where
  "referenced (ModelArtifacts n) = n"
| "referenced (ProcessingOutputUri n _) = n"

fun left :: "condition \<Rightarrow> json_get" where
  "left (ConditionGreaterThanOrEqualTo l r) = l"

fun sources :: "step \<Rightarrow> string list" where
  "sources (ProcessingStep _ _ inputs _ _) = map (\<lambda>(source, destination). referenced source) inputs"
| "sources (TrainingStep _ inputs) = map (\<lambda>(channel, data). referenced data) inputs"
| "sources (RegisterModel _ _ model_data _) = [referenced model_data]"
| "sources (ConditionStep _ conditions _ _) = map (\<lambda>c. step_name (left c)) conditions"

fun branches :: "step \<Rightarrow> step list" where
  "branches (ConditionStep _ _ if_steps else_steps) = if_steps @ else_steps"
| "branches s = []"

fun in_order :: "string list \<Rightarrow> step list \<Rightarrow> bool" where
  "in_order seen [] = True"
| "in_order seen (s # ss) =
     (set (sources s) \<subseteq> set seen
      \<and> list_all (\<lambda>b. set (sources b) \<subseteq> set (name s # seen)) (branches s)
      \<and> in_order (name s # seen) ss)"

text \<open>
  The file a \<^verbatim>\<open>JsonGet\<close> reads: the step it names must declare the property file, and the
  file lies at the property file's path in the directory of the output it names.
\<close>

fun report_file :: "step list \<Rightarrow> json_get \<Rightarrow> string option" where
  "report_file ss g =
     (case List.find (\<lambda>s. name s = step_name g) ss of
        Some (ProcessingStep _ _ _ outputs property_files) \<Rightarrow>
          if property_file g \<in> set property_files
          then (case map_of outputs (output_name (property_file g)) of
                  Some directory \<Rightarrow> Some (directory @ ''/'' @ path (property_file g))
                | None \<Rightarrow> None)
          else None
      | _ \<Rightarrow> None)"

section \<open>Cell 12: the preprocessing script\<close>

subsection \<open>Double-precision arithmetic of the split points\<close>

text \<open>
  The split points are \<^verbatim>\<open>int(0.7 * len(model_data))\<close> and \<^verbatim>\<open>int(0.9 * len(model_data))\<close>.
  The product is a double: the length is converted to a double, multiplied by the double
  nearest to the literal, and the exact product is rounded to 53 significant bits, ties
  to even; \<^verbatim>\<open>int\<close> then truncates.  For instance \<^verbatim>\<open>int(0.7 * 90)\<close> is 62, not 63.
  The exponent range of a double is not modelled: a length is far below it.
\<close>

fun bit_length :: "nat \<Rightarrow> nat" where
  "bit_length n = (if n = 0 then 0 else Suc (bit_length (n div 2)))"

declare bit_length.simps [simp del]

text \<open>The natural number \<open>q\<close> rounded to 53 significant bits, ties to even.\<close>

definition round53 :: "nat \<Rightarrow> nat" where
  "round53 q =
     (let e = bit_length q - 53
      in if e = 0 then q
         else (let half = 2 ^ (e - 1); r = q div 2 ^ e; rest = q mod 2 ^ e
               in (if rest < half then r
                   else if half < rest then r + 1
                   else if even r then r else r + 1) * 2 ^ e))"

text \<open>
  \<^verbatim>\<open>int(c * n)\<close> for the double \<open>c = m / 2^53\<close> and the integer \<open>n \<ge> 0\<close>.
\<close>

definition int_of_product :: "nat \<Rightarrow> nat \<Rightarrow> nat" where
  "int_of_product m n = round53 (m * round53 n) div 2 ^ 53"

text \<open>The doubles of the literals: \<^verbatim>\<open>0.7 = 0x1.6666666666666p-1\<close>, \<^verbatim>\<open>0.9 = 0x1.ccccccccccccdp-1\<close>.\<close>

definition lit_0_7 :: nat where
  "lit_0_7 = 6305039478318694"

definition lit_0_9 :: nat where
  "lit_0_9 = 8106479329266893"

subsection \<open>Data frames\<close>

text \<open>
  A frame is the list of its columns.  A column has a label, a dtype that is either
  \<^verbatim>\<open>object\<close> or numeric, and one cell per row.  Missing values are not modelled.
\<close>

record column =
  label :: string
  is_object :: bool
  cells :: "cell list"

type_synonym dataframe = "column list"

text \<open>\<^verbatim>\<open>df.drop(labels, axis=1)\<close>: every label must exist.\<close>

definition drop_columns :: "string list \<Rightarrow> dataframe \<Rightarrow> py_error + dataframe" where
  "drop_columns labels df =
     (case filter (\<lambda>l. l \<notin> label ` set df) labels of
        missing # _ \<Rightarrow> Inl (KeyError missing)
      | [] \<Rightarrow> Inr (filter (\<lambda>c. label c \<notin> set labels) df))"

text \<open>\<^verbatim>\<open>df[l]\<close>: the columns labelled \<open>l\<close>.\<close>

definition getitem :: "string \<Rightarrow> dataframe \<Rightarrow> py_error + dataframe" where
  "getitem l df =
     (case filter (\<lambda>c. label c = l) df of
        [] \<Rightarrow> Inl (KeyError l)
      | found \<Rightarrow> Inr found)"

text \<open>\<^verbatim>\<open>df[l] = df[l].astype(object)\<close>\<close>

definition astype_object :: "string \<Rightarrow> dataframe \<Rightarrow> py_error + dataframe" where
  "astype_object l df =
     (case getitem l df of
        Inl e \<Rightarrow> Inl e
      | Inr _ \<Rightarrow> Inr (map (\<lambda>c. if label c = l then c\<lparr>is_object := True\<rparr> else c) df))"

text \<open>\<^verbatim>\<open>str\<close> of a cell.  The text of a float is an argument, \<open>float_repr\<close>.\<close>

fun decimal :: "nat \<Rightarrow> string" where
  "decimal n =
     (if n < 10 then [char_of (48 + n)]
      else decimal (n div 10) @ [char_of (48 + n mod 10)])"

fun py_str :: "(rat \<Rightarrow> string) \<Rightarrow> cell \<Rightarrow> string" where
  "py_str float_repr (IntV i) = (if i < 0 then CHR ''-'' # decimal (nat (- i)) else decimal (nat i))"
| "py_str float_repr (FloatV r) = float_repr r"
| "py_str float_repr (StrV s) = s"

text \<open>
  The order in which pandas lists the categories of a column: numbers by value, strings
  by code point, numbers before strings.
\<close>

fun number :: "cell \<Rightarrow> rat" where
  "number (IntV i) = of_int i"
| "number (FloatV r) = r"
| "number (StrV s) = 0"

fun cell_le :: "cell \<Rightarrow> cell \<Rightarrow> bool" where
  "cell_le (StrV a) (StrV b) = (a \<le> b)"
| "cell_le (StrV a) b = False"
| "cell_le a (StrV b) = True"
| "cell_le a b = (number a \<le> number b)"

fun insert_level :: "cell \<Rightarrow> cell list \<Rightarrow> cell list" where
  "insert_level x [] = [x]"
| "insert_level x (y # ys) = (if cell_le x y then x # y # ys else y # insert_level x ys)"

definition levels :: "cell list \<Rightarrow> cell list" where
  "levels vs = foldr insert_level (remdups vs) []"

text \<open>
  \<^verbatim>\<open>pd.get_dummies(df)\<close>: the numeric columns stay, in their order; after them every
  \<^verbatim>\<open>object\<close> column gives one 0/1 indicator column per category, labelled
  \<^verbatim>\<open>f"{column}_{category}"\<close>.
\<close>

definition indicator :: "(rat \<Rightarrow> string) \<Rightarrow> column \<Rightarrow> cell \<Rightarrow> column" where
  "indicator float_repr c level =
     \<lparr>label = label c @ ''_'' @ py_str float_repr level,
      is_object = False,
      cells = map (\<lambda>v. IntV (if v = level then 1 else 0)) (cells c)\<rparr>"

definition get_dummies :: "(rat \<Rightarrow> string) \<Rightarrow> dataframe \<Rightarrow> dataframe" where
  "get_dummies float_repr df =
     filter (\<lambda>c. \<not> is_object c) df
     @ concat (map (\<lambda>c. map (indicator float_repr c) (levels (cells c))) (filter is_object df))"

text \<open>\<^verbatim>\<open>len(df)\<close> and the rows of a frame.\<close>

definition len :: "dataframe \<Rightarrow> nat" where
  "len df = (case df of [] \<Rightarrow> 0 | c # _ \<Rightarrow> length (cells c))"

definition rows_of :: "dataframe \<Rightarrow> cell list list" where
  "rows_of df = map (\<lambda>i. map (\<lambda>c. cells c ! i) df) [0..<len df]"

text \<open>
  \<^verbatim>\<open>df.sample(frac=1, random_state=1729)\<close>: every row once, in the order of the
  permutation that the seeded generator draws for this number of rows.  The generator is
  an argument: \<open>permutation n\<close> is what it draws for \<open>n\<close> rows.
\<close>

definition sample :: "(nat \<Rightarrow> nat list) \<Rightarrow> 'a list \<Rightarrow> 'a list" where
  "sample permutation rows = map (\<lambda>i. rows ! i) (permutation (length rows))"

text \<open>Python's \<^verbatim>\<open>xs[st:end]\<close> for indices that are not negative.\<close>

definition py_slice :: "nat \<Rightarrow> nat \<Rightarrow> 'a list \<Rightarrow> 'a list" where
  "py_slice st end xs = take (end - st) (drop st xs)"

text \<open>
  \<^verbatim>\<open>np.split(ary, indices)\<close>: with \<^verbatim>\<open>div_points = [0] + indices + [len(ary)]\<close>, the pieces
  \<^verbatim>\<open>ary[div_points[i]:div_points[i+1]]\<close>.
\<close>

definition np_split :: "'a list \<Rightarrow> nat list \<Rightarrow> 'a list list" where
  "np_split ary indices =
     (let div_points = [0] @ indices @ [length ary]
      in map (\<lambda>i. py_slice (div_points ! i) (div_points ! (i + 1)) ary)
           [0..<length indices + 1])"

subsection \<open>The script\<close>

text \<open>
  \<^verbatim>\<open>
  df = df.drop(["Phone"], axis=1)
  df["Area Code"] = df["Area Code"].astype(object)
  df = df.drop(["Day Charge", "Eve Charge", "Night Charge", "Intl Charge"], axis=1)
  \<close>
\<close>

definition select_columns :: "dataframe \<Rightarrow> py_error + dataframe" where
  "select_columns df =
     (case drop_columns [''Phone''] df of
        Inl e \<Rightarrow> Inl e
      | Inr df1 \<Rightarrow>
     (case astype_object ''Area Code'' df1 of
        Inl e \<Rightarrow> Inl e
      | Inr df2 \<Rightarrow>
          drop_columns [''Day Charge'', ''Eve Charge'', ''Night Charge'', ''Intl Charge''] df2))"

text \<open>
  \<^verbatim>\<open>
  model_data = pd.concat(
      [model_data["Churn?_True."],
       model_data.drop(["Churn?_False.", "Churn?_True."], axis=1)], axis=1)
  \<close>
\<close>

definition target_first :: "dataframe \<Rightarrow> py_error + dataframe" where
  "target_first model_data =
     (case getitem ''Churn?_True.'' model_data of
        Inl e \<Rightarrow> Inl e
      | Inr target \<Rightarrow>
     (case drop_columns [''Churn?_False.'', ''Churn?_True.''] model_data of
        Inl e \<Rightarrow> Inl e
      | Inr features \<Rightarrow> Inr (target @ features)))"

record outputs =
  train_csv :: csv
  validation_csv :: csv
  test_csv :: csv

text \<open>
  \<^verbatim>\<open>
  train_data, validation_data, test_data = np.split(
      model_data.sample(frac=1, random_state=1729),
      [int(0.7 * len(model_data)), int(0.9 * len(model_data))])
  \<close>
  and the three \<^verbatim>\<open>to_csv(..., header=False, index=False)\<close>.
\<close>

definition split_data :: "(nat \<Rightarrow> nat list) \<Rightarrow> dataframe \<Rightarrow> outputs" where
  "split_data permutation model_data =
     (let parts = np_split (sample permutation (rows_of model_data))
                    [int_of_product lit_0_7 (len model_data),
                     int_of_product lit_0_9 (len model_data)]
      in \<lparr>train_csv = parts ! 0, validation_csv = parts ! 1, test_csv = parts ! 2\<rparr>)"

text \<open>
  The script from the frame that \<^verbatim>\<open>pd.read_csv\<close> returned to the three files written.
  The download of the raw file that precedes it is not modelled.
\<close>

definition preprocess ::
  "(rat \<Rightarrow> string) \<Rightarrow> (nat \<Rightarrow> nat list) \<Rightarrow> dataframe \<Rightarrow> py_error + outputs" where
  "preprocess float_repr permutation df =
     (case select_columns df of
        Inl e \<Rightarrow> Inl e
      | Inr selected \<Rightarrow>
     (case target_first (get_dummies float_repr selected) of
        Inl e \<Rightarrow> Inl e
      | Inr model_data \<Rightarrow> Inr (split_data permutation model_data)))"

text \<open>
  What \<^verbatim>\<open>pd.read_csv\<close> guarantees of the frame it returns from a file with a header:
  the labels are distinct, every column has one cell per row, and a column is of dtype
  \<^verbatim>\<open>object\<close> exactly when it holds strings.
\<close>

definition read_csv_frame :: "dataframe \<Rightarrow> bool" where
  "read_csv_frame df \<longleftrightarrow>
     distinct (map label df)
     \<and> (\<forall>c \<in> set df. length (cells c) = len df)
     \<and> (\<forall>c \<in> set df. \<forall>v \<in> set (cells c). is_object c = (case v of StrV _ \<Rightarrow> True | _ \<Rightarrow> False))"

section \<open>Example inputs\<close>

definition example_registry :: "model_package_summary list" where
  "example_registry =
     [\<lparr>ModelPackageArn = ''arn:model-package/churn/1'', CreationTime = 100,
       ModelApprovalStatus = ''Rejected''\<rparr>,
      \<lparr>ModelPackageArn = ''arn:model-package/churn/3'', CreationTime = 300,
       ModelApprovalStatus = ''PendingManualApproval''\<rparr>,
      \<lparr>ModelPackageArn = ''arn:model-package/churn/2'', CreationTime = 200,
       ModelApprovalStatus = ''PendingManualApproval''\<rparr>]"

definition example_test_csv :: csv where
  "example_test_csv =
     [[IntV 1, FloatV (1497 / 5), IntV 0], [IntV 0, FloatV (1217 / 5), IntV 1],
      [IntV 1, FloatV (808 / 5), IntV 1], [IntV 0, FloatV (2651 / 10), IntV 1]]"

text \<open>A stand-in for the booster and for the two scores, to run the script on.\<close>

definition example_predict :: "cell list list \<Rightarrow> py_error + rat list" where
  "example_predict X = Inr (map (\<lambda>row. if row ! 1 = IntV 0 then 9 / 10 else 1 / 5) X)"

definition example_accuracy_score :: "cell list \<Rightarrow> rat list \<Rightarrow> py_error + rat" where
  "example_accuracy_score y p =
     Inr (of_nat (length (filter (\<lambda>(a, b). number a = b) (zip y p))) / of_nat (length y))"

definition example_roc_auc_score :: "cell list \<Rightarrow> rat list \<Rightarrow> py_error + rat" where
  "example_roc_auc_score y p = Inr (1 / 2)"

definition example_frame :: dataframe where
  "example_frame =
     [\<lparr>label = ''State'', is_object = True,
       cells = [StrV ''KS'', StrV ''OH'', StrV ''KS'', StrV ''NJ'']\<rparr>,
      \<lparr>label = ''Area Code'', is_object = False,
       cells = [IntV 415, IntV 408, IntV 415, IntV 510]\<rparr>,
      \<lparr>label = ''Phone'', is_object = True,
       cells = [StrV ''382-4657'', StrV ''371-7191'', StrV ''358-1921'', StrV ''375-9999'']\<rparr>,
      \<lparr>label = ''Day Mins'', is_object = False,
       cells = [FloatV (2651 / 10), FloatV (808 / 5), FloatV (1217 / 5), FloatV (1497 / 5)]\<rparr>,
      \<lparr>label = ''Day Charge'', is_object = False,
       cells = [FloatV (4507 / 100), FloatV (2747 / 100), FloatV (2069 / 50), FloatV (509 / 10)]\<rparr>,
      \<lparr>label = ''Eve Charge'', is_object = False,
       cells = [FloatV (839 / 50), FloatV (831 / 50), FloatV (103 / 10), FloatV (263 / 50)]\<rparr>,
      \<lparr>label = ''Night Charge'', is_object = False,
       cells = [FloatV (1101 / 100), FloatV (229 / 20), FloatV (183 / 25), FloatV (443 / 50)]\<rparr>,
      \<lparr>label = ''Intl Charge'', is_object = False,
       cells = [FloatV (27 / 10), FloatV (37 / 10), FloatV (329 / 100), FloatV (89 / 50)]\<rparr>,
      \<lparr>label = ''Churn?'', is_object = True,
       cells = [StrV ''False.'', StrV ''True.'', StrV ''False.'', StrV ''True.'']\<rparr>]"

text \<open>A stand-in for the seeded generator: the rows in reverse.\<close>

definition example_permutation :: "nat \<Rightarrow> nat list" where
  "example_permutation n = rev [0..<n]"

definition example_model_data :: dataframe where
  "example_model_data =
     [\<lparr>label = ''Churn?_True.'', is_object = False, cells = [IntV 0, IntV 1, IntV 0, IntV 1]\<rparr>,
      \<lparr>label = ''Day Mins'', is_object = False,
       cells = [FloatV (2651 / 10), FloatV (808 / 5), FloatV (1217 / 5), FloatV (1497 / 5)]\<rparr>,
      \<lparr>label = ''State_KS'', is_object = False, cells = [IntV 1, IntV 0, IntV 1, IntV 0]\<rparr>,
      \<lparr>label = ''State_NJ'', is_object = False, cells = [IntV 0, IntV 0, IntV 0, IntV 1]\<rparr>,
      \<lparr>label = ''State_OH'', is_object = False, cells = [IntV 0, IntV 1, IntV 0, IntV 0]\<rparr>,
      \<lparr>label = ''Area Code_408'', is_object = False, cells = [IntV 0, IntV 1, IntV 0, IntV 0]\<rparr>,
      \<lparr>label = ''Area Code_415'', is_object = False, cells = [IntV 1, IntV 0, IntV 1, IntV 0]\<rparr>,
      \<lparr>label = ''Area Code_510'', is_object = False, cells = [IntV 0, IntV 0, IntV 0, IntV 1]\<rparr>]"

definition example_outputs :: outputs where
  "example_outputs =
     \<lparr>train_csv =
        [[IntV 1, FloatV (1497 / 5), IntV 0, IntV 1, IntV 0, IntV 0, IntV 0, IntV 1],
         [IntV 0, FloatV (1217 / 5), IntV 1, IntV 0, IntV 0, IntV 0, IntV 1, IntV 0]],
      validation_csv =
        [[IntV 1, FloatV (808 / 5), IntV 0, IntV 0, IntV 1, IntV 1, IntV 0, IntV 0]],
      test_csv =
        [[IntV 0, FloatV (2651 / 10), IntV 1, IntV 0, IntV 0, IntV 0, IntV 1, IntV 0]]\<rparr>"

definition example_selected :: dataframe where
  "example_selected =
     [\<lparr>label = ''State'', is_object = True,
       cells = [StrV ''KS'', StrV ''OH'', StrV ''KS'', StrV ''NJ'']\<rparr>,
      \<lparr>label = ''Area Code'', is_object = True,
       cells = [IntV 415, IntV 408, IntV 415, IntV 510]\<rparr>,
      \<lparr>label = ''Day Mins'', is_object = False,
       cells = [FloatV (2651 / 10), FloatV (808 / 5), FloatV (1217 / 5), FloatV (1497 / 5)]\<rparr>,
      \<lparr>label = ''Churn?'', is_object = True,
       cells = [StrV ''False.'', StrV ''True.'', StrV ''False.'', StrV ''True.'']\<rparr>]"

text \<open>
  The example frame with one more column, numeric and labelled like the indicator column
  that \<^verbatim>\<open>get_dummies\<close> makes of \<^verbatim>\<open>Churn?\<close>.
\<close>

definition raw_label_frame :: dataframe where
  "raw_label_frame =
     example_frame
     @ [\<lparr>label = ''Churn?_True.'', is_object = False,
         cells = [IntV 7, IntV 8, IntV 9, IntV 6]\<rparr>]"

definition example_float_repr :: "rat \<Rightarrow> string" where
  "example_float_repr r = ''?''"

definition raw_label_model_data :: dataframe where
  "raw_label_model_data =
     [\<lparr>label = ''Churn?_True.'', is_object = False, cells = [IntV 7, IntV 8, IntV 9, IntV 6]\<rparr>,
      \<lparr>label = ''Churn?_True.'', is_object = False, cells = [IntV 0, IntV 1, IntV 0, IntV 1]\<rparr>,
      \<lparr>label = ''Day Mins'', is_object = False,
       cells = [FloatV (2651 / 10), FloatV (808 / 5), FloatV (1217 / 5), FloatV (1497 / 5)]\<rparr>,
      \<lparr>label = ''State_KS'', is_object = False, cells = [IntV 1, IntV 0, IntV 1, IntV 0]\<rparr>,
      \<lparr>label = ''State_NJ'', is_object = False, cells = [IntV 0, IntV 0, IntV 0, IntV 1]\<rparr>,
      \<lparr>label = ''State_OH'', is_object = False, cells = [IntV 0, IntV 1, IntV 0, IntV 0]\<rparr>,
      \<lparr>label = ''Area Code_408'', is_object = False, cells = [IntV 0, IntV 1, IntV 0, IntV 0]\<rparr>,
      \<lparr>label = ''Area Code_415'', is_object = False, cells = [IntV 1, IntV 0, IntV 1, IntV 0]\<rparr>,
      \<lparr>label = ''Area Code_510'', is_object = False, cells = [IntV 0, IntV 0, IntV 0, IntV 1]\<rparr>]"

definition raw_label_outputs :: outputs where
  "raw_label_outputs =
     \<lparr>train_csv =
        [[IntV 6, IntV 1, FloatV (1497 / 5), IntV 0, IntV 1, IntV 0, IntV 0, IntV 0, IntV 1],
         [IntV 9, IntV 0, FloatV (1217 / 5), IntV 1, IntV 0, IntV 0, IntV 0, IntV 1, IntV 0]],
      validation_csv =
        [[IntV 8, IntV 1, FloatV (808 / 5), IntV 0, IntV 0, IntV 1, IntV 1, IntV 0, IntV 0]],
      test_csv =
        [[IntV 7, IntV 0, FloatV (2651 / 10), IntV 1, IntV 0, IntV 0, IntV 0, IntV 1, IntV 0]]\<rparr>"

section \<open>Properties\<close>

subsection \<open>Creating the pipeline\<close>

lemma str_contains_iff: "str_contains n h \<longleftrightarrow> (\<exists>pre post. h = pre @ n @ post)"
proof (induction h)
  case Nil
  then show ?case by auto
next
  case (Cons c cs)
  show ?case
  proof
    assume "str_contains n (c # cs)"
    then consider "take (length n) (c # cs) = n" | "str_contains n cs" by auto
    then show "\<exists>pre post. c # cs = pre @ n @ post"
    proof cases
      case 1
      then have "c # cs = [] @ n @ drop (length n) (c # cs)"
        by (metis append_Nil append_take_drop_id)
      then show ?thesis by blast
    next
      case 2
      then obtain pre post where "cs = pre @ n @ post" using Cons.IH by blast
      then have "c # cs = (c # pre) @ n @ post" by simp
      then show ?thesis by blast
    qed
  next
    assume "\<exists>pre post. c # cs = pre @ n @ post"
    then obtain pre post where h: "c # cs = pre @ n @ post" by blast
    show "str_contains n (c # cs)"
    proof (cases pre)
      case Nil
      then have "take (length n) (c # cs) = n" using h by simp
      then show ?thesis by simp
    next
      case (Cons p ps)
      then have "cs = ps @ n @ post" using h by simp
      then have "str_contains n cs" using Cons.IH by blast
      then show ?thesis by simp
    qed
  qed
qed

text \<open>
  C2.  A \<^verbatim>\<open>ClientError\<close> of \<^verbatim>\<open>pipeline.create\<close> whose code is \<^verbatim>\<open>ValidationError\<close> and whose
  message contains \<^verbatim>\<open>Pipeline names must be unique within\<close> is caught: the message is
  printed, the existing pipeline is described, and the description becomes the
  response, as if the creation had succeeded.  Any other \<^verbatim>\<open>ClientError\<close> leaves the cell
  as it was raised; \<^verbatim>\<open>pipeline.describe\<close> is not called then.
\<close>

theorem create_pipeline_handles_conflict:
  "create_pipeline (Inr r) describe = ([Call ''pipeline.create''], Inr r)
   \<and> (code = ''ValidationError''
        \<and> str_contains ''Pipeline names must be unique within'' message
      \<longrightarrow> create_pipeline (Inl (ClientError code message)) describe
            = ([Call ''pipeline.create'', Print message, Call ''pipeline.describe''], describe))
   \<and> (\<not> (code = ''ValidationError''
           \<and> str_contains ''Pipeline names must be unique within'' message)
      \<longrightarrow> create_pipeline (Inl (ClientError code message)) describe
            = ([Call ''pipeline.create''], Inl (ClientError code message)))"
  unfolding create_pipeline_def by simp

theorem create_pipeline_handles_conflict_witness:
  "str_contains ''Pipeline names must be unique within''
     ''Pipeline names must be unique within an AWS account and region''
   \<and> create_pipeline
        (Inl (ClientError ''ValidationError''
                ''Pipeline names must be unique within an AWS account and region''))
        (Inr ''arn:aws:sagemaker:pipeline/customerchurn-pipe-0142'')
      = ([Call ''pipeline.create'',
          Print ''Pipeline names must be unique within an AWS account and region'',
          Call ''pipeline.describe''],
         Inr ''arn:aws:sagemaker:pipeline/customerchurn-pipe-0142'')
   \<and> \<not> (''AccessDeniedException'' = ''ValidationError''
          \<and> str_contains ''Pipeline names must be unique within'' ''not authorized'')
   \<and> create_pipeline (Inl (ClientError ''AccessDeniedException'' ''not authorized''))
        (Inr ''arn:aws:sagemaker:pipeline/customerchurn-pipe-0142'')
      = ([Call ''pipeline.create''],
         Inl (ClientError ''AccessDeniedException'' ''not authorized''))"
  using create_pipeline_handles_conflict
          [of "''arn''" "Inr ''arn:aws:sagemaker:pipeline/customerchurn-pipe-0142''"
              "''ValidationError''"
              "''Pipeline names must be unique within an AWS account and region''"]
        create_pipeline_handles_conflict
          [of "''arn''" "Inr ''arn:aws:sagemaker:pipeline/customerchurn-pipe-0142''"
              "''AccessDeniedException''" "''not authorized''"]
  by simp

subsection \<open>The two waiting loops\<close>

lemma poll_execution_executing:
  "\<forall>s \<in> set pre. s = ''Executing'' \<Longrightarrow>
   poll_execution arn (map Inr pre @ rest)
   = (concat (replicate (length pre)
        [Call ''describe_pipeline_execution'', Print ''Running...'', Sleep 15])
        @ fst (poll_execution arn rest),
      snd (poll_execution arn rest))"
  by (induction pre) (auto simp: case_prod_beta)

lemma wait_loop_creating:
  "\<forall>r \<in> set pre. EndpointStatus r = ''Creating'' \<Longrightarrow>
   wait_loop poll_interval (map Inr pre @ rest)
   = (concat (replicate (length pre)
        [Call ''describe_endpoint'',
         Print ''Creating job is still in status: Creating ...'',
         LogInfo ''Creating job is still in status: Creating'',
         Sleep poll_interval])
        @ fst (wait_loop poll_interval rest),
      snd (wait_loop poll_interval rest))"
  by (induction pre) (auto simp: case_prod_beta Let_def)

lemma sleep_poll_execution: "Sleep n \<in> set (fst (poll_execution arn obs)) \<Longrightarrow> n = 15"
  by (induction arn obs rule: poll_execution.induct) (auto simp: case_prod_beta split: if_splits)

lemma sleep_wait_loop: "Sleep n \<in> set (fst (wait_loop poll_interval obs)) \<Longrightarrow> n = poll_interval"
  by (induction poll_interval obs rule: wait_loop.induct)
    (auto simp: case_prod_beta Let_def split: if_splits option.splits)

lemma sleep_wait_for_response:
  "Sleep n \<in> set (fst (wait_for_response poll_interval obs)) \<Longrightarrow> n = poll_interval"
  using sleep_wait_loop[of n poll_interval obs]
  by (auto simp: wait_for_response_def split: prod.splits outcome.splits if_splits)

lemma wait_loop_leaves:
  "EndpointStatus r \<noteq> ''Creating'' \<Longrightarrow>
   wait_loop poll_interval (Inr r # rest) = wait_loop poll_interval [Inr r]
   \<and> snd (wait_loop poll_interval [Inr r]) \<noteq> Running"
  by (auto simp: Let_def split: option.splits)

lemma wait_for_response_running:
  "snd (wait_for_response poll_interval obs) = Running
   \<longleftrightarrow> snd (wait_loop poll_interval obs) = Running"
  by (auto simp: wait_for_response_def split: prod.splits outcome.splits)

text \<open>
  The sentence of C4 as it stands: a loop leaves only when a terminal state of the polled
  resource is observed.  A pipeline execution that is being stopped reports \<^verbatim>\<open>Stopping\<close>,
  which is not one of its final statuses, and the loop of cell 27 leaves on it; an
  endpoint that reports \<^verbatim>\<open>Updating\<close> is in no settled status, and \<^verbatim>\<open>wait_for_response\<close>
  leaves its loop and raises.
\<close>

theorem loop_leaves_on_transitional_status_counterexample:
  "\<not> execution_terminal ''Stopping''
   \<and> poll_execution ''arn:execution/7'' [Inr ''Stopping'']
       = ([Call ''describe_pipeline_execution'', Print ''Stopping arn:execution/7''],
          Returned ''Stopping'')
   \<and> \<not> endpoint_terminal ''Updating''
   \<and> wait_for_endpoint [Inr \<lparr>EndpointStatus = ''Updating'', FailureReason = None\<rparr>]
       = ([Call ''describe_endpoint'',
           Print ''Creating job is still in status: Updating ...'',
           LogInfo ''Creating job is still in status: Updating'',
           Sleep 30],
          Raised (Exception ''Creating job stopped''))"
  by (simp add: execution_terminal_def endpoint_terminal_def wait_for_endpoint_def
      wait_for_response_def Let_def)

text \<open>
  C4, amended.  Both loops sleep a fixed time between two polls, 15 seconds for the
  pipeline execution and 30 seconds for the endpoint.  As long as every status observed
  is the one the loop waits on (\<^verbatim>\<open>Executing\<close>, \<^verbatim>\<open>Creating\<close>), the loop has not left, whatever
  the number of observations.  It leaves at the first observation of any other status,
  terminal or not, and polls no further; every terminal status is such a status.  An
  exception of the describe call leaves the loop as it was raised.
\<close>

theorem waiting_loops_leave_on_other_status:
  "(\<forall>n. Sleep n \<in> set (fst (poll_execution arn calls)) \<longrightarrow> n = 15)
   \<and> ((\<forall>s \<in> set obs. s = ''Executing'')
      \<longrightarrow> poll_execution arn (map Inr obs)
          = (concat (replicate (length obs)
               [Call ''describe_pipeline_execution'', Print ''Running...'', Sleep 15]),
             Running))
   \<and> ((\<forall>s \<in> set obs. s = ''Executing'') \<and> status \<noteq> ''Executing''
      \<longrightarrow> poll_execution arn (map Inr obs @ Inr status # later)
          = (concat (replicate (length obs)
               [Call ''describe_pipeline_execution'', Print ''Running...'', Sleep 15])
             @ [Call ''describe_pipeline_execution'', Print (status @ '' '' @ arn)],
             Returned status))
   \<and> ((\<forall>s \<in> set obs. s = ''Executing'')
      \<longrightarrow> poll_execution arn (map Inr obs @ Inl e # later)
          = (concat (replicate (length obs)
               [Call ''describe_pipeline_execution'', Print ''Running...'', Sleep 15])
             @ [Call ''describe_pipeline_execution''],
             Raised e))
   \<and> (execution_terminal status \<longrightarrow> status \<noteq> ''Executing'')
   \<and> (\<forall>n. Sleep n \<in> set (fst (wait_for_endpoint endpoint_calls)) \<longrightarrow> n = 30)
   \<and> ((\<forall>r \<in> set responses. EndpointStatus r = ''Creating'')
      \<longrightarrow> wait_for_endpoint (map Inr responses)
          = (concat (replicate (length responses)
               [Call ''describe_endpoint'',
                Print ''Creating job is still in status: Creating ...'',
                LogInfo ''Creating job is still in status: Creating'',
                Sleep 30]),
             Running))
   \<and> ((\<forall>r \<in> set responses. EndpointStatus r = ''Creating'')
        \<and> EndpointStatus response \<noteq> ''Creating''
      \<longrightarrow> snd (wait_for_endpoint (map Inr responses @ Inr response # rest)) \<noteq> Running
        \<and> wait_for_endpoint (map Inr responses @ Inr response # rest)
          = wait_for_endpoint (map Inr responses @ [Inr response]))
   \<and> ((\<forall>r \<in> set responses. EndpointStatus r = ''Creating'')
      \<longrightarrow> wait_for_endpoint (map Inr responses @ Inl e # rest)
          = (concat (replicate (length responses)
               [Call ''describe_endpoint'',
                Print ''Creating job is still in status: Creating ...'',
                LogInfo ''Creating job is still in status: Creating'',
                Sleep 30])
             @ [Call ''describe_endpoint''],
             Raised e))
   \<and> (endpoint_terminal (EndpointStatus response) \<longrightarrow> EndpointStatus response \<noteq> ''Creating'')"
proof (intro conjI allI impI)
  fix n assume "Sleep n \<in> set (fst (poll_execution arn calls))"
  then show "n = 15" by (rule sleep_poll_execution)
next
  assume "\<forall>s \<in> set obs. s = ''Executing''"
  then show "poll_execution arn (map Inr obs)
          = (concat (replicate (length obs)
               [Call ''describe_pipeline_execution'', Print ''Running...'', Sleep 15]),
             Running)"
    using poll_execution_executing[of obs arn "[]"] by simp
next
  assume "(\<forall>s \<in> set obs. s = ''Executing'') \<and> status \<noteq> ''Executing''"
  then show "poll_execution arn (map Inr obs @ Inr status # later)
          = (concat (replicate (length obs)
               [Call ''describe_pipeline_execution'', Print ''Running...'', Sleep 15])
             @ [Call ''describe_pipeline_execution'', Print (status @ '' '' @ arn)],
             Returned status)"
    using poll_execution_executing[of obs arn "Inr status # later"] by simp
next
  assume "\<forall>s \<in> set obs. s = ''Executing''"
  then show "poll_execution arn (map Inr obs @ Inl e # later)
          = (concat (replicate (length obs)
               [Call ''describe_pipeline_execution'', Print ''Running...'', Sleep 15])
             @ [Call ''describe_pipeline_execution''],
             Raised e)"
    using poll_execution_executing[of obs arn "Inl e # later"] by simp
next
  assume "execution_terminal status"
  then show "status \<noteq> ''Executing''" by (auto simp: execution_terminal_def)
next
  fix n assume "Sleep n \<in> set (fst (wait_for_endpoint endpoint_calls))"
  then show "n = 30"
    unfolding wait_for_endpoint_def by (rule sleep_wait_for_response)
next
  assume "\<forall>r \<in> set responses. EndpointStatus r = ''Creating''"
  then show "wait_for_endpoint (map Inr responses)
          = (concat (replicate (length responses)
               [Call ''describe_endpoint'',
                Print ''Creating job is still in status: Creating ...'',
                LogInfo ''Creating job is still in status: Creating'',
                Sleep 30]),
             Running)"
    using wait_loop_creating[of responses 30 "[]"]
    by (simp add: wait_for_endpoint_def wait_for_response_def)
next
  assume a: "(\<forall>r \<in> set responses. EndpointStatus r = ''Creating'')
        \<and> EndpointStatus response \<noteq> ''Creating''"
  then have l: "wait_loop 30 (Inr response # rest) = wait_loop 30 [Inr response]"
    and r: "snd (wait_loop 30 [Inr response]) \<noteq> Running"
    using wait_loop_leaves[of response 30 rest] by auto
  have e: "wait_loop 30 (map Inr responses @ Inr response # rest)
           = wait_loop 30 (map Inr responses @ [Inr response])"
    using a wait_loop_creating[of responses 30 "Inr response # rest"]
      wait_loop_creating[of responses 30 "[Inr response]"] l by simp
  have "snd (wait_loop 30 (map Inr responses @ Inr response # rest)) \<noteq> Running"
    using a wait_loop_creating[of responses 30 "Inr response # rest"] l r by simp
  then show "snd (wait_for_endpoint (map Inr responses @ Inr response # rest)) \<noteq> Running"
    by (simp add: wait_for_endpoint_def wait_for_response_running)
  show "wait_for_endpoint (map Inr responses @ Inr response # rest)
          = wait_for_endpoint (map Inr responses @ [Inr response])"
    by (simp add: wait_for_endpoint_def wait_for_response_def e)
next
  assume "\<forall>r \<in> set responses. EndpointStatus r = ''Creating''"
  then show "wait_for_endpoint (map Inr responses @ Inl e # rest)
          = (concat (replicate (length responses)
               [Call ''describe_endpoint'',
                Print ''Creating job is still in status: Creating ...'',
                LogInfo ''Creating job is still in status: Creating'',
                Sleep 30])
             @ [Call ''describe_endpoint''],
             Raised e)"
    using wait_loop_creating[of responses 30 "Inl e # rest"]
    by (simp add: wait_for_endpoint_def wait_for_response_def)
next
  assume "endpoint_terminal (EndpointStatus response)"
  then show "EndpointStatus response \<noteq> ''Creating''" by (auto simp: endpoint_terminal_def)
qed

theorem waiting_loops_leave_on_other_status_witness:
  "Sleep 15 \<in> set (fst (poll_execution ''arn:execution/7'' (map Inr [''Executing'', ''Executing''])))
   \<and> Sleep 30 \<in> set (fst (wait_for_endpoint
         (map Inr [\<lparr>EndpointStatus = ''Creating'', FailureReason = None\<rparr>])))
   \<and> poll_execution ''arn:execution/7'' (map Inr [''Executing'', ''Executing''])
      = ([Call ''describe_pipeline_execution'', Print ''Running...'', Sleep 15,
          Call ''describe_pipeline_execution'', Print ''Running...'', Sleep 15],
         Running)
   \<and> ''Succeeded'' \<noteq> ''Executing''
   \<and> poll_execution ''arn:execution/7''
        (map Inr [''Executing'', ''Executing''] @ Inr ''Succeeded'' # [Inr ''Executing''])
      = ([Call ''describe_pipeline_execution'', Print ''Running...'', Sleep 15,
          Call ''describe_pipeline_execution'', Print ''Running...'', Sleep 15,
          Call ''describe_pipeline_execution'', Print ''Succeeded arn:execution/7''],
         Returned ''Succeeded'')
   \<and> poll_execution ''arn:execution/7''
        (map Inr [''Executing'', ''Executing''] @ Inl (ClientError ''ThrottlingException'' ''Rate exceeded'') # [Inr ''Executing''])
      = ([Call ''describe_pipeline_execution'', Print ''Running...'', Sleep 15,
          Call ''describe_pipeline_execution'', Print ''Running...'', Sleep 15,
          Call ''describe_pipeline_execution''],
         Raised (ClientError ''ThrottlingException'' ''Rate exceeded''))
   \<and> wait_for_endpoint (map Inr [\<lparr>EndpointStatus = ''Creating'', FailureReason = None\<rparr>])
      = ([Call ''describe_endpoint'',
          Print ''Creating job is still in status: Creating ...'',
          LogInfo ''Creating job is still in status: Creating'',
          Sleep 30],
         Running)
   \<and> EndpointStatus \<lparr>EndpointStatus = ''InService'', FailureReason = None\<rparr> \<noteq> ''Creating''
   \<and> snd (wait_for_endpoint
         (map Inr [\<lparr>EndpointStatus = ''Creating'', FailureReason = None\<rparr>]
          @ Inr \<lparr>EndpointStatus = ''InService'', FailureReason = None\<rparr> # [])) \<noteq> Running
   \<and> wait_for_endpoint
        (map Inr [\<lparr>EndpointStatus = ''Creating'', FailureReason = None\<rparr>]
         @ Inl (ClientError ''ThrottlingException'' ''Rate exceeded'') # [])
      = ([Call ''describe_endpoint'',
          Print ''Creating job is still in status: Creating ...'',
          LogInfo ''Creating job is still in status: Creating'',
          Sleep 30,
          Call ''describe_endpoint''],
         Raised (ClientError ''ThrottlingException'' ''Rate exceeded''))
   \<and> execution_terminal ''Succeeded''
   \<and> endpoint_terminal (EndpointStatus \<lparr>EndpointStatus = ''InService'', FailureReason = None\<rparr>)"
proof -
  note t = waiting_loops_leave_on_other_status
          [of "''arn:execution/7''" "map Inr [''Executing'', ''Executing'']"
              "[''Executing'', ''Executing'']" "''Succeeded''"
              "[Inr ''Executing'']" "ClientError ''ThrottlingException'' ''Rate exceeded''"
              "map Inr [\<lparr>EndpointStatus = ''Creating'', FailureReason = None\<rparr>]"
              "[\<lparr>EndpointStatus = ''Creating'', FailureReason = None\<rparr>]"
              "\<lparr>EndpointStatus = ''InService'', FailureReason = None\<rparr>" "[]"]
  note t2 = t[THEN conjunct2, THEN conjunct1]
  note t3 = t[THEN conjunct2, THEN conjunct2, THEN conjunct1]
  note t4 = t[THEN conjunct2, THEN conjunct2, THEN conjunct2, THEN conjunct1]
  note t7 = t[THEN conjunct2, THEN conjunct2, THEN conjunct2, THEN conjunct2, THEN conjunct2,
      THEN conjunct2, THEN conjunct1]
  note t8 = t[THEN conjunct2, THEN conjunct2, THEN conjunct2, THEN conjunct2, THEN conjunct2,
      THEN conjunct2, THEN conjunct2, THEN conjunct1]
  note t9 = t[THEN conjunct2, THEN conjunct2, THEN conjunct2, THEN conjunct2, THEN conjunct2,
      THEN conjunct2, THEN conjunct2, THEN conjunct2, THEN conjunct1]
  have h2: "\<forall>s \<in> set [''Executing'', ''Executing'']. s = ''Executing''" by simp
  have h3: "''Succeeded'' \<noteq> ''Executing''" by simp
  have h5: "\<forall>r \<in> set [\<lparr>EndpointStatus = ''Creating'', FailureReason = None\<rparr>].
         EndpointStatus r = ''Creating''" by simp
  have h6: "EndpointStatus \<lparr>EndpointStatus = ''InService'', FailureReason = None\<rparr> \<noteq> ''Creating''"
    by simp
  have c2: "poll_execution ''arn:execution/7'' (map Inr [''Executing'', ''Executing''])
      = ([Call ''describe_pipeline_execution'', Print ''Running...'', Sleep 15,
          Call ''describe_pipeline_execution'', Print ''Running...'', Sleep 15],
         Running)"
    using t2[THEN mp, OF h2] by (simp add: numeral_2_eq_2)
  have c3: "poll_execution ''arn:execution/7''
        (map Inr [''Executing'', ''Executing''] @ Inr ''Succeeded'' # [Inr ''Executing''])
      = ([Call ''describe_pipeline_execution'', Print ''Running...'', Sleep 15,
          Call ''describe_pipeline_execution'', Print ''Running...'', Sleep 15,
          Call ''describe_pipeline_execution'', Print ''Succeeded arn:execution/7''],
         Returned ''Succeeded'')"
    using t3[THEN mp, OF conjI[OF h2 h3]] by (simp add: numeral_2_eq_2)
  have c4: "poll_execution ''arn:execution/7''
        (map Inr [''Executing'', ''Executing''] @ Inl (ClientError ''ThrottlingException'' ''Rate exceeded'') # [Inr ''Executing''])
      = ([Call ''describe_pipeline_execution'', Print ''Running...'', Sleep 15,
          Call ''describe_pipeline_execution'', Print ''Running...'', Sleep 15,
          Call ''describe_pipeline_execution''],
         Raised (ClientError ''ThrottlingException'' ''Rate exceeded''))"
    using t4[THEN mp, OF h2] by (simp add: numeral_2_eq_2)
  have c5: "wait_for_endpoint (map Inr [\<lparr>EndpointStatus = ''Creating'', FailureReason = None\<rparr>])
      = ([Call ''describe_endpoint'',
          Print ''Creating job is still in status: Creating ...'',
          LogInfo ''Creating job is still in status: Creating'',
          Sleep 30],
         Running)"
    using t7[THEN mp, OF h5] by simp
  have c6: "snd (wait_for_endpoint
         (map Inr [\<lparr>EndpointStatus = ''Creating'', FailureReason = None\<rparr>]
          @ Inr \<lparr>EndpointStatus = ''InService'', FailureReason = None\<rparr> # [])) \<noteq> Running"
    using t8[THEN mp, OF conjI[OF h5 h6]] by blast
  have c7: "wait_for_endpoint
        (map Inr [\<lparr>EndpointStatus = ''Creating'', FailureReason = None\<rparr>]
         @ Inl (ClientError ''ThrottlingException'' ''Rate exceeded'') # [])
      = ([Call ''describe_endpoint'',
          Print ''Creating job is still in status: Creating ...'',
          LogInfo ''Creating job is still in status: Creating'',
          Sleep 30,
          Call ''describe_endpoint''],
         Raised (ClientError ''ThrottlingException'' ''Rate exceeded''))"
    using t9[THEN mp, OF h5] by simp
  show ?thesis
    apply (intro conjI)
    subgoal by (simp only: c2 fst_conv) simp
    subgoal by (simp only: c5 fst_conv) simp
    subgoal by (rule c2)
    subgoal by (rule h3)
    subgoal by (rule c3)
    subgoal by (rule c4)
    subgoal by (rule c5)
    subgoal by (rule h6)
    subgoal by (rule c6)
    subgoal by (rule c7)
    subgoal by (simp add: execution_terminal_def)
    subgoal by (simp add: endpoint_terminal_def)
    done
qed

text \<open>
  The sentence of C3 as it stands: the exception raised on a failed endpoint carries the
  platform's \<^verbatim>\<open>FailureReason\<close>.  At a response that reports the reason
  \<^verbatim>\<open>ResourceLimitExceeded\<close> the exception is \<^verbatim>\<open>Exception('Creating Endpoint failed')\<close>, and
  the reason is no part of its text.
\<close>

theorem failure_reason_in_exception_counterexample:
  "snd (wait_for_response 30
          [Inr \<lparr>EndpointStatus = ''Failed'', FailureReason = Some ''ResourceLimitExceeded''\<rparr>])
     = Raised (Exception ''Creating Endpoint failed'')
   \<and> \<not> str_contains ''ResourceLimitExceeded'' (error_text (Exception ''Creating Endpoint failed''))"
  by (simp add: wait_for_response_def)

text \<open>
  C3, amended.  When the endpoint is reported \<^verbatim>\<open>Failed\<close> after any number of
  \<^verbatim>\<open>Creating\<close> responses, and the response has a \<^verbatim>\<open>FailureReason\<close>, \<^verbatim>\<open>wait_for_response\<close>
  logs and prints the reason and then raises an exception with the fixed text
  \<^verbatim>\<open>Creating Endpoint failed\<close>.
\<close>

theorem wait_for_response_failed:
  assumes "\<forall>r \<in> set responses. EndpointStatus r = ''Creating''"
    and "EndpointStatus response = ''Failed''"
    and "FailureReason response = Some message"
  shows "wait_for_response poll_interval (map Inr responses @ Inr response # later)
     = (concat (replicate (length responses)
          [Call ''describe_endpoint'',
           Print ''Creating job is still in status: Creating ...'',
           LogInfo ''Creating job is still in status: Creating'',
           Sleep poll_interval])
        @ [Call ''describe_endpoint'',
           Print ''Creating job is still in status: Failed ...'',
           LogInfo (''Endpoint Creation failed with the following error: '' @ message),
           Print (''Endpoint failed with the following error: '' @ message)],
        Raised (Exception ''Creating Endpoint failed''))"
  using assms wait_loop_creating[of responses poll_interval "Inr response # later"]
  by (simp add: wait_for_response_def)

theorem wait_for_response_failed_witness:
  "EndpointStatus \<lparr>EndpointStatus = ''Failed'', FailureReason = Some ''ResourceLimitExceeded''\<rparr>
       = ''Failed''
   \<and> FailureReason \<lparr>EndpointStatus = ''Failed'', FailureReason = Some ''ResourceLimitExceeded''\<rparr>
       = Some ''ResourceLimitExceeded''
   \<and> wait_for_response 30
        (map Inr [\<lparr>EndpointStatus = ''Creating'', FailureReason = None\<rparr>]
         @ Inr \<lparr>EndpointStatus = ''Failed'', FailureReason = Some ''ResourceLimitExceeded''\<rparr> # [])
     = ([Call ''describe_endpoint'',
         Print ''Creating job is still in status: Creating ...'',
         LogInfo ''Creating job is still in status: Creating'',
         Sleep 30,
         Call ''describe_endpoint'',
         Print ''Creating job is still in status: Failed ...'',
         LogInfo ''Endpoint Creation failed with the following error: ResourceLimitExceeded'',
         Print ''Endpoint failed with the following error: ResourceLimitExceeded''],
        Raised (Exception ''Creating Endpoint failed''))"
  using wait_for_response_failed
          [of "[\<lparr>EndpointStatus = ''Creating'', FailureReason = None\<rparr>]"
              "\<lparr>EndpointStatus = ''Failed'', FailureReason = Some ''ResourceLimitExceeded''\<rparr>"
              "''ResourceLimitExceeded''" 30 "[]"]
  by simp

subsection \<open>Approving the latest model package\<close>

lemma sorted_reverse_head:
  assumes "sorted_reverse k xs = p # ps"
  shows "p \<in> set xs \<and> (\<forall>q \<in> set xs. k q \<le> k p)"
proof -
  let ?s = "sort_key k (rev xs)"
  have "rev ?s = p # ps" using assms by (simp add: sorted_reverse_def)
  then have s: "?s = rev ps @ [p]" by (metis rev_rev_ident rev.simps(2))
  have "p \<in> set ?s" using s by (metis in_set_conv_decomp)
  then have m: "p \<in> set xs" by simp
  have "sorted (map k ?s)" by simp
  then have "sorted (map k (rev ps) @ [k p])" using s by simp
  then have "\<forall>q \<in> set (rev ps). k q \<le> k p" by (auto simp: sorted_append)
  moreover have "set xs = set (rev ps) \<union> {p}"
    using s by (metis set_sort set_rev set_append list.set(2) list.set(1) Un_commute insert_is_Un)
  ultimately show ?thesis using m by auto
qed

lemma sorted_reverse_Nil: "sorted_reverse k xs = [] \<longleftrightarrow> xs = []"
proof -
  have "length (sorted_reverse k xs) = length xs" by (simp add: sorted_reverse_def)
  then show ?thesis by (metis length_0_conv)
qed

lemma sorted_reverse_stable:
  "filter (\<lambda>y. k y = a) (sorted_reverse k xs) = filter (\<lambda>y. k y = a) xs"
  by (simp add: sorted_reverse_def rev_filter[symmetric] sort_key_stable)

lemma find_filter_hd: "List.find P xs = (case filter P xs of [] \<Rightarrow> None | x # _ \<Rightarrow> Some x)"
  by (induction xs) auto

lemma sorted_reverse_first_latest:
  assumes "sorted_reverse k xs = p # ps"
  shows "List.find (\<lambda>q. k q = k p) xs = Some p"
proof -
  have "filter (\<lambda>q. k q = k p) xs = filter (\<lambda>q. k q = k p) (p # ps)"
    using sorted_reverse_stable[of k "k p" xs] assms by simp
  then show ?thesis by (simp add: find_filter_hd)
qed

lemma approve_latest_example:
  "approve_latest example_registry
   = Inr (''arn:model-package/churn/3'',
       [\<lparr>ModelPackageArn = ''arn:model-package/churn/1'', CreationTime = 100,
         ModelApprovalStatus = ''Rejected''\<rparr>,
        \<lparr>ModelPackageArn = ''arn:model-package/churn/3'', CreationTime = 300,
         ModelApprovalStatus = ''Approved''\<rparr>,
        \<lparr>ModelPackageArn = ''arn:model-package/churn/2'', CreationTime = 200,
         ModelApprovalStatus = ''PendingManualApproval''\<rparr>])"
  by (simp add: approve_latest_def latest_model_package_arn_def sorted_reverse_def
      update_model_package_def example_registry_def)

text \<open>
  C7.  From a group that lists at least one package, the approval selects a package
  whose \<^verbatim>\<open>CreationTime\<close> no listed package exceeds (the first such package of the
  listing), and the update sets \<^verbatim>\<open>ModelApprovalStatus\<close> to \<^verbatim>\<open>Approved\<close> for the package
  with the selected ARN and changes no other package.
\<close>

theorem approve_latest_selects_newest:
  assumes "registry \<noteq> []"
  shows "\<exists>p \<in> set registry.
           (\<forall>q \<in> set registry. CreationTime q \<le> CreationTime p)
         \<and> List.find (\<lambda>q. CreationTime q = CreationTime p) registry = Some p
         \<and> latest_model_package_arn registry = Inr (ModelPackageArn p)
         \<and> approve_latest registry
             = Inr (ModelPackageArn p,
                    map (\<lambda>q. if ModelPackageArn q = ModelPackageArn p
                              then q\<lparr>ModelApprovalStatus := ''Approved''\<rparr> else q) registry)"
proof -
  obtain p ps where s: "sorted_reverse CreationTime registry = p # ps"
    using assms sorted_reverse_Nil[of CreationTime registry]
    by (cases "sorted_reverse CreationTime registry") auto
  have "p \<in> set registry" "\<forall>q \<in> set registry. CreationTime q \<le> CreationTime p"
    using sorted_reverse_head[OF s] by auto
  moreover have "List.find (\<lambda>q. CreationTime q = CreationTime p) registry = Some p"
    using sorted_reverse_first_latest[OF s] .
  moreover have "latest_model_package_arn registry = Inr (ModelPackageArn p)"
    by (simp add: latest_model_package_arn_def s)
  ultimately show ?thesis
    by (auto simp: approve_latest_def update_model_package_def)
qed

theorem approve_latest_selects_newest_witness:
  "example_registry \<noteq> []
   \<and> (\<exists>p \<in> set example_registry.
           (\<forall>q \<in> set example_registry. CreationTime q \<le> CreationTime p)
         \<and> List.find (\<lambda>q. CreationTime q = CreationTime p) example_registry = Some p
         \<and> latest_model_package_arn example_registry = Inr (ModelPackageArn p)
         \<and> approve_latest example_registry
             = Inr (ModelPackageArn p,
                    map (\<lambda>q. if ModelPackageArn q = ModelPackageArn p
                              then q\<lparr>ModelApprovalStatus := ''Approved''\<rparr> else q)
                      example_registry))"
proof -
  have h: "example_registry \<noteq> []" by (simp add: example_registry_def)
  show ?thesis using h approve_latest_selects_newest[OF h] by (rule conjI)
qed

subsection \<open>The pipeline definition\<close>

lemma accuracy_path:
  "split_on CHR ''.'' ''binary_classification_metrics.accuracy.value''
   = [''binary_classification_metrics'', ''accuracy'', ''value'']"
  by (simp add: Let_def)

lemma auc_path:
  "split_on CHR ''.'' ''binary_classification_metrics.auc.value''
   = [''binary_classification_metrics'', ''auc'', ''value'']"
  by (simp add: Let_def)

lemma selected_steps_step_cond:
  "json_lookup [''binary_classification_metrics'', ''accuracy'', ''value''] report
     = Some (JNumber acc)
   \<Longrightarrow> selected_steps report step_cond = Some (if 8 / 10 \<le> acc then [step_register] else [])"
  by (simp add: step_cond_def cond_lte_def accuracy_path)

lemma report_dict_accuracy:
  "json_lookup [''binary_classification_metrics'', ''accuracy'', ''value''] (report_dict acc auc)
   = Some (JNumber acc)"
  by (simp add: report_dict_def)

lemma pipeline_steps_explicit:
  "steps (pipeline pname bucket)
     = [ProcessingStep ''CustomerChurnProcess'' ''preprocess.py'' []
          [(''train'', ''/opt/ml/processing/train''),
           (''validation'', ''/opt/ml/processing/validation''),
           (''test'', ''/opt/ml/processing/test'')]
          [],
        TrainingStep ''CustomerChurnTrain''
          [(''train'', ProcessingOutputUri ''CustomerChurnProcess'' ''train''),
           (''validation'', ProcessingOutputUri ''CustomerChurnProcess'' ''validation'')],
        ProcessingStep ''CustomerChurnEval'' ''evaluate.py''
          [(ModelArtifacts ''CustomerChurnTrain'', ''/opt/ml/processing/model''),
           (ProcessingOutputUri ''CustomerChurnProcess'' ''test'', ''/opt/ml/processing/test'')]
          [(''evaluation'', ''/opt/ml/processing/evaluation'')]
          [\<lparr>pf_name = ''EvaluationReport'', output_name = ''evaluation'',
            path = ''evaluation.json''\<rparr>],
        ConditionStep ''CustomerChurnAccuracyCond''
          [ConditionGreaterThanOrEqualTo
             \<lparr>step_name = ''CustomerChurnEval'',
              property_file = \<lparr>pf_name = ''EvaluationReport'', output_name = ''evaluation'',
                                path = ''evaluation.json''\<rparr>,
              json_path = ''binary_classification_metrics.accuracy.value''\<rparr>
             (8 / 10)]
          [RegisterModel ''CustomerChurnRegisterModel'' ''CustomerChurnPackageGroup''
             (ModelArtifacts ''CustomerChurnTrain'') ''ModelApprovalStatus'']
          []]"
  by (simp add: pipeline_def step_process_def step_train_def step_eval_def step_cond_def
      cond_lte_def step_register_def evaluation_report_def model_package_group_name_def)

lemma run_pipeline:
  assumes "json_lookup [''binary_classification_metrics'', ''accuracy'', ''value''] report
           = Some (JNumber acc)"
  shows "run_steps report (steps (pipeline pname bucket))
         = Some (steps (pipeline pname bucket)
                 @ (if 8 / 10 \<le> acc then [step_register] else []))"
  using selected_steps_step_cond[OF assms]
  by (simp add: pipeline_def step_process_def step_train_def step_eval_def)
    (simp add: step_cond_def)

lemma step_register_explicit:
  "[step_register] = [RegisterModel ''CustomerChurnRegisterModel'' ''CustomerChurnPackageGroup''
                        (ModelArtifacts ''CustomerChurnTrain'') ''ModelApprovalStatus'']"
  by (simp add: step_register_def model_package_group_name_def step_train_def)

text \<open>
  The run of the pipeline computed from the definitions alone, on the report of an
  evaluation with accuracy 0.9 and on one with accuracy 0.75.
\<close>

lemma run_pipeline_examples:
  "map_option (map name)
     (run_steps (report_dict (9 / 10) (1 / 2)) (steps (pipeline ''CustomerChurn-Pipe-0142'' ''bucket'')))
   = Some [''CustomerChurnProcess'', ''CustomerChurnTrain'', ''CustomerChurnEval'',
           ''CustomerChurnAccuracyCond'', ''CustomerChurnRegisterModel'']"
  "map_option (map name)
     (run_steps (report_dict (3 / 4) (1 / 2)) (steps (pipeline ''CustomerChurn-Pipe-0142'' ''bucket'')))
   = Some [''CustomerChurnProcess'', ''CustomerChurnTrain'', ''CustomerChurnEval'',
           ''CustomerChurnAccuracyCond'']"
  by (simp_all add: pipeline_def step_process_def step_train_def step_eval_def step_cond_def
      cond_lte_def step_register_def evaluation_report_def model_package_group_name_def
      report_dict_def Let_def)

text \<open>
  C1.  The pipeline lists, in this order, the processing step that runs
  \<^verbatim>\<open>preprocess.py\<close>, the training step, the processing step that runs \<^verbatim>\<open>evaluate.py\<close>
  and the condition step; each reads properties of the steps before it only (training
  the outputs of preprocessing, evaluation the model of training and the test output of
  preprocessing, the condition the report of evaluation), so this is the order they run
  in.  The condition step has one condition, \<open>\<ge> 0.8\<close> on the value at
  \<^verbatim>\<open>binary_classification_metrics.accuracy.value\<close> of the property file
  \<^verbatim>\<open>evaluation.json\<close> in the output \<^verbatim>\<open>evaluation\<close> of the evaluation step, which is the
  file \<^verbatim>\<open>evaluate.py\<close> writes; its \<open>if_steps\<close> are the one step that registers the model
  of the training step in the model package group, its \<open>else_steps\<close> are empty.  Under
  the platform's reading of a condition step, a run executes the four steps and then the
  registration step exactly when that value is at least 0.8, and nothing more otherwise.
\<close>

theorem pipeline_steps_and_condition:
  "steps (pipeline pname bucket)
     = [ProcessingStep ''CustomerChurnProcess'' ''preprocess.py'' []
          [(''train'', ''/opt/ml/processing/train''),
           (''validation'', ''/opt/ml/processing/validation''),
           (''test'', ''/opt/ml/processing/test'')]
          [],
        TrainingStep ''CustomerChurnTrain''
          [(''train'', ProcessingOutputUri ''CustomerChurnProcess'' ''train''),
           (''validation'', ProcessingOutputUri ''CustomerChurnProcess'' ''validation'')],
        ProcessingStep ''CustomerChurnEval'' ''evaluate.py''
          [(ModelArtifacts ''CustomerChurnTrain'', ''/opt/ml/processing/model''),
           (ProcessingOutputUri ''CustomerChurnProcess'' ''test'', ''/opt/ml/processing/test'')]
          [(''evaluation'', ''/opt/ml/processing/evaluation'')]
          [\<lparr>pf_name = ''EvaluationReport'', output_name = ''evaluation'',
            path = ''evaluation.json''\<rparr>],
        ConditionStep ''CustomerChurnAccuracyCond''
          [ConditionGreaterThanOrEqualTo
             \<lparr>step_name = ''CustomerChurnEval'',
              property_file = \<lparr>pf_name = ''EvaluationReport'', output_name = ''evaluation'',
                                path = ''evaluation.json''\<rparr>,
              json_path = ''binary_classification_metrics.accuracy.value''\<rparr>
             (8 / 10)]
          [RegisterModel ''CustomerChurnRegisterModel'' ''CustomerChurnPackageGroup''
             (ModelArtifacts ''CustomerChurnTrain'') ''ModelApprovalStatus'']
          []]
   \<and> map name (steps (pipeline pname bucket))
       = [''CustomerChurnProcess'', ''CustomerChurnTrain'', ''CustomerChurnEval'',
          ''CustomerChurnAccuracyCond'']
   \<and> map sources (steps (pipeline pname bucket))
       = [[], [''CustomerChurnProcess'', ''CustomerChurnProcess''],
          [''CustomerChurnTrain'', ''CustomerChurnProcess''], [''CustomerChurnEval'']]
   \<and> in_order [] (steps (pipeline pname bucket))
   \<and> report_file (steps (pipeline pname bucket))
        \<lparr>step_name = ''CustomerChurnEval'',
          property_file = \<lparr>pf_name = ''EvaluationReport'', output_name = ''evaluation'',
                            path = ''evaluation.json''\<rparr>,
          json_path = ''binary_classification_metrics.accuracy.value''\<rparr>
       = Some ''/opt/ml/processing/evaluation/evaluation.json''
   \<and> evaluation_output_path = ''/opt/ml/processing/evaluation/evaluation.json''
   \<and> run_steps (report_dict accuracy auc) (steps (pipeline pname bucket))
       = Some (steps (pipeline pname bucket)
               @ (if 8 / 10 \<le> accuracy
                  then [RegisterModel ''CustomerChurnRegisterModel'' ''CustomerChurnPackageGroup''
                        (ModelArtifacts ''CustomerChurnTrain'') ''ModelApprovalStatus'']
                  else []))
   \<and> (json_lookup [''binary_classification_metrics'', ''accuracy'', ''value''] report
         = Some (JNumber acc)
       \<longrightarrow> run_steps report (steps (pipeline pname bucket))
           = Some (steps (pipeline pname bucket)
                   @ (if 8 / 10 \<le> acc
                      then [RegisterModel ''CustomerChurnRegisterModel'' ''CustomerChurnPackageGroup''
                        (ModelArtifacts ''CustomerChurnTrain'') ''ModelApprovalStatus'']
                      else [])))"
proof (intro conjI impI)
  show "steps (pipeline pname bucket)
     = [ProcessingStep ''CustomerChurnProcess'' ''preprocess.py'' []
          [(''train'', ''/opt/ml/processing/train''),
           (''validation'', ''/opt/ml/processing/validation''),
           (''test'', ''/opt/ml/processing/test'')]
          [],
        TrainingStep ''CustomerChurnTrain''
          [(''train'', ProcessingOutputUri ''CustomerChurnProcess'' ''train''),
           (''validation'', ProcessingOutputUri ''CustomerChurnProcess'' ''validation'')],
        ProcessingStep ''CustomerChurnEval'' ''evaluate.py''
          [(ModelArtifacts ''CustomerChurnTrain'', ''/opt/ml/processing/model''),
           (ProcessingOutputUri ''CustomerChurnProcess'' ''test'', ''/opt/ml/processing/test'')]
          [(''evaluation'', ''/opt/ml/processing/evaluation'')]
          [\<lparr>pf_name = ''EvaluationReport'', output_name = ''evaluation'',
            path = ''evaluation.json''\<rparr>],
        ConditionStep ''CustomerChurnAccuracyCond''
          [ConditionGreaterThanOrEqualTo
             \<lparr>step_name = ''CustomerChurnEval'',
              property_file = \<lparr>pf_name = ''EvaluationReport'', output_name = ''evaluation'',
                                path = ''evaluation.json''\<rparr>,
              json_path = ''binary_classification_metrics.accuracy.value''\<rparr>
             (8 / 10)]
          [RegisterModel ''CustomerChurnRegisterModel'' ''CustomerChurnPackageGroup''
             (ModelArtifacts ''CustomerChurnTrain'') ''ModelApprovalStatus'']
          []]"
    by (rule pipeline_steps_explicit)
  show "map name (steps (pipeline pname bucket))
       = [''CustomerChurnProcess'', ''CustomerChurnTrain'', ''CustomerChurnEval'',
          ''CustomerChurnAccuracyCond'']"
    by (simp add: pipeline_steps_explicit)
  show "map sources (steps (pipeline pname bucket))
       = [[], [''CustomerChurnProcess'', ''CustomerChurnProcess''],
          [''CustomerChurnTrain'', ''CustomerChurnProcess''], [''CustomerChurnEval'']]"
    by (simp add: pipeline_steps_explicit)
  show "in_order [] (steps (pipeline pname bucket))"
    by (simp add: pipeline_steps_explicit)
  show "report_file (steps (pipeline pname bucket))
        \<lparr>step_name = ''CustomerChurnEval'',
          property_file = \<lparr>pf_name = ''EvaluationReport'', output_name = ''evaluation'',
                            path = ''evaluation.json''\<rparr>,
          json_path = ''binary_classification_metrics.accuracy.value''\<rparr>
       = Some ''/opt/ml/processing/evaluation/evaluation.json''"
    by (simp add: pipeline_steps_explicit)
  show "evaluation_output_path = ''/opt/ml/processing/evaluation/evaluation.json''"
    by (rule evaluation_output_path_def)
  show "run_steps (report_dict accuracy auc) (steps (pipeline pname bucket))
       = Some (steps (pipeline pname bucket)
               @ (if 8 / 10 \<le> accuracy
                  then [RegisterModel ''CustomerChurnRegisterModel'' ''CustomerChurnPackageGroup''
                        (ModelArtifacts ''CustomerChurnTrain'') ''ModelApprovalStatus'']
                  else []))"
    using run_pipeline[OF report_dict_accuracy, of accuracy auc pname bucket]
    by (simp only: step_register_explicit)
next
  assume "json_lookup [''binary_classification_metrics'', ''accuracy'', ''value''] report
         = Some (JNumber acc)"
  then show "run_steps report (steps (pipeline pname bucket))
           = Some (steps (pipeline pname bucket)
                   @ (if 8 / 10 \<le> acc
                      then [RegisterModel ''CustomerChurnRegisterModel'' ''CustomerChurnPackageGroup''
                        (ModelArtifacts ''CustomerChurnTrain'') ''ModelApprovalStatus'']
                      else []))"
    using run_pipeline[of report acc pname bucket] by (simp only: step_register_explicit)
qed

theorem pipeline_steps_and_condition_witness:
  "json_lookup [''binary_classification_metrics'', ''accuracy'', ''value'']
     (report_dict (9 / 10) (1 / 2)) = Some (JNumber (9 / 10))
   \<and> map name (the (run_steps (report_dict (9 / 10) (1 / 2))
                      (steps (pipeline ''CustomerChurn-Pipe-0142'' ''bucket''))))
       = [''CustomerChurnProcess'', ''CustomerChurnTrain'', ''CustomerChurnEval'',
          ''CustomerChurnAccuracyCond'', ''CustomerChurnRegisterModel'']
   \<and> json_lookup [''binary_classification_metrics'', ''accuracy'', ''value'']
     (report_dict (3 / 4) (1 / 2)) = Some (JNumber (3 / 4))
   \<and> map name (the (run_steps (report_dict (3 / 4) (1 / 2))
                      (steps (pipeline ''CustomerChurn-Pipe-0142'' ''bucket''))))
       = [''CustomerChurnProcess'', ''CustomerChurnTrain'', ''CustomerChurnEval'',
          ''CustomerChurnAccuracyCond'']"
proof -
  note names = pipeline_steps_and_condition
    [where pname = "''CustomerChurn-Pipe-0142''" and bucket = "''bucket''",
     THEN conjunct2, THEN conjunct1]
  note hi = pipeline_steps_and_condition
    [where pname = "''CustomerChurn-Pipe-0142''" and bucket = "''bucket''"
       and report = "report_dict (9 / 10) (1 / 2)" and acc = "9 / 10",
     THEN conjunct2, THEN conjunct2, THEN conjunct2, THEN conjunct2, THEN conjunct2,
     THEN conjunct2, THEN conjunct2, THEN mp, OF report_dict_accuracy]
  note lo = pipeline_steps_and_condition
    [where pname = "''CustomerChurn-Pipe-0142''" and bucket = "''bucket''"
       and report = "report_dict (3 / 4) (1 / 2)" and acc = "3 / 4",
     THEN conjunct2, THEN conjunct2, THEN conjunct2, THEN conjunct2, THEN conjunct2,
     THEN conjunct2, THEN conjunct2, THEN mp, OF report_dict_accuracy]
  have "map name (the (run_steps (report_dict (9 / 10) (1 / 2))
                      (steps (pipeline ''CustomerChurn-Pipe-0142'' ''bucket''))))
       = [''CustomerChurnProcess'', ''CustomerChurnTrain'', ''CustomerChurnEval'',
          ''CustomerChurnAccuracyCond'', ''CustomerChurnRegisterModel'']"
    unfolding hi by (simp add: names)
  moreover have "map name (the (run_steps (report_dict (3 / 4) (1 / 2))
                      (steps (pipeline ''CustomerChurn-Pipe-0142'' ''bucket''))))
       = [''CustomerChurnProcess'', ''CustomerChurnTrain'', ''CustomerChurnEval'',
          ''CustomerChurnAccuracyCond'']"
    unfolding lo by (simp add: names)
  ultimately show ?thesis by (simp add: report_dict_accuracy)
qed

text \<open>
  C10.  Selecting the latest package raises \<^verbatim>\<open>IndexError\<close> exactly when no package is
  listed, and returns an ARN otherwise.  When the accuracy in the evaluation report is
  below 0.8, the condition step selects no registration, a group that was empty is still
  empty after the pipeline, and the approval raises \<^verbatim>\<open>IndexError\<close>.
\<close>

theorem approval_needs_a_package:
  "(latest_model_package_arn packages = Inl IndexError) = (packages = [])
   \<and> (approve_latest packages = Inl IndexError) = (packages = [])
   \<and> (packages \<noteq> [] \<longrightarrow> (\<exists>arn. latest_model_package_arn packages = Inr arn))
   \<and> (json_lookup [''binary_classification_metrics'', ''accuracy'', ''value''] report
         = Some (JNumber acc) \<and> acc < 8 / 10
       \<longrightarrow> group_after_condition report new [] = Some []
         \<and> approve_latest [] = Inl IndexError)"
  using sorted_reverse_Nil[of CreationTime packages] selected_steps_step_cond[of report acc]
  by (auto simp: latest_model_package_arn_def approve_latest_def group_after_condition_def
      sorted_reverse_def split: list.splits)

theorem approval_needs_a_package_witness:
  "latest_model_package_arn [] = Inl IndexError
   \<and> approve_latest [] = Inl IndexError
   \<and> example_registry \<noteq> []
   \<and> (\<exists>arn. latest_model_package_arn example_registry = Inr arn)
   \<and> json_lookup [''binary_classification_metrics'', ''accuracy'', ''value'']
        (report_dict (3 / 4) (1 / 2)) = Some (JNumber (3 / 4))
   \<and> (3 / 4 :: rat) < 8 / 10
   \<and> group_after_condition (report_dict (3 / 4) (1 / 2)) (hd example_registry) [] = Some []"
proof -
  have h: "example_registry \<noteq> []" by (simp add: example_registry_def)
  have l: "(3 / 4 :: rat) < 8 / 10" by simp
  note a = approval_needs_a_package[of "[]" "report_dict (3 / 4) (1 / 2)" "3 / 4" "hd example_registry"]
  note b = approval_needs_a_package
    [of example_registry "report_dict (3 / 4) (1 / 2)" "3 / 4" "hd example_registry",
     THEN conjunct2, THEN conjunct2, THEN conjunct1, THEN mp, OF h]
  note c = a[THEN conjunct2, THEN conjunct2, THEN conjunct2, THEN mp,
     OF conjI[OF report_dict_accuracy l], THEN conjunct1]
  have "latest_model_package_arn [] = Inl IndexError" using a[THEN conjunct1] by simp
  moreover have "approve_latest [] = Inl IndexError"
    using a[THEN conjunct2, THEN conjunct1] by simp
  ultimately show ?thesis using h b c l report_dict_accuracy by blast
qed

subsection \<open>The evaluation script\<close>

lemma np_round_examples: "np_round (9 / 10) = 1" "np_round (1 / 5) = 0" "np_round (1 / 2) = 0"
  "np_round (3 / 2) = 2"
  by code_simp+

text \<open>
  C6.  When the model loads, the test file has a first column, and prediction and both
  scores succeed, the script writes the report in which
  \<^verbatim>\<open>binary_classification_metrics.accuracy.value\<close> is the accuracy score and
  \<^verbatim>\<open>binary_classification_metrics.auc.value\<close> the AUC score of the rounded predictions
  against column 0 of the test file; these two are the only numbers of the report (each
  metric also has the string \<^verbatim>\<open>NaN\<close> as its \<^verbatim>\<open>standard_deviation\<close>).
\<close>

theorem evaluate_writes_two_metrics:
  assumes "load_model = Inr predict"
    and "read_test test_rows = Inr (y_test, X_test)"
    and "predict X_test = Inr predictions"
    and "accuracy_score y_test (map np_round predictions) = Inr acc"
    and "roc_auc_score y_test (map np_round predictions) = Inr auc"
  shows "evaluate load_model accuracy_score roc_auc_score test_rows = Inr (report_dict acc auc)
    \<and> y_test = map hd test_rows \<and> X_test = map tl test_rows
    \<and> report_dict acc auc
        = JObject [(''binary_classification_metrics'',
            JObject [(''accuracy'', JObject [(''value'', JNumber acc),
                                             (''standard_deviation'', JString ''NaN'')]),
                     (''auc'', JObject [(''value'', JNumber auc),
                                        (''standard_deviation'', JString ''NaN'')])])]
    \<and> numbers (report_dict acc auc)
        = [([''binary_classification_metrics'', ''accuracy'', ''value''], acc),
           ([''binary_classification_metrics'', ''auc'', ''value''], auc)]
    \<and> json_lookup (split_on CHR ''.'' ''binary_classification_metrics.accuracy.value'')
         (report_dict acc auc) = Some (JNumber acc)
    \<and> json_lookup (split_on CHR ''.'' ''binary_classification_metrics.auc.value'')
         (report_dict acc auc) = Some (JNumber auc)"
proof -
  have "evaluate load_model accuracy_score roc_auc_score test_rows = Inr (report_dict acc auc)"
    using assms by (simp add: evaluate_def)
  moreover have "y_test = map hd test_rows \<and> X_test = map tl test_rows"
    using assms(2) by (auto simp: read_test_def split: list.splits if_splits)
  moreover have "numbers (report_dict acc auc)
        = [([''binary_classification_metrics'', ''accuracy'', ''value''], acc),
           ([''binary_classification_metrics'', ''auc'', ''value''], auc)]"
    by (simp add: report_dict_def)
  moreover have "json_lookup (split_on CHR ''.'' ''binary_classification_metrics.accuracy.value'')
         (report_dict acc auc) = Some (JNumber acc)"
    by (simp only: accuracy_path report_dict_accuracy)
  moreover have "json_lookup (split_on CHR ''.'' ''binary_classification_metrics.auc.value'')
         (report_dict acc auc) = Some (JNumber auc)"
    by (simp add: auc_path report_dict_def)
  ultimately show ?thesis by (simp add: report_dict_def)
qed

lemma example_read_test:
  "read_test example_test_csv
   = Inr ([IntV 1, IntV 0, IntV 1, IntV 0],
          [[FloatV (1497 / 5), IntV 0], [FloatV (1217 / 5), IntV 1],
           [FloatV (808 / 5), IntV 1], [FloatV (2651 / 10), IntV 1]])"
  by (simp add: read_test_def example_test_csv_def)

lemma example_predictions:
  "example_predict [[FloatV (1497 / 5), IntV 0], [FloatV (1217 / 5), IntV 1],
           [FloatV (808 / 5), IntV 1], [FloatV (2651 / 10), IntV 1]]
   = Inr [9 / 10, 1 / 5, 1 / 5, 1 / 5]"
  by (simp add: example_predict_def)

lemma example_accuracy:
  "example_accuracy_score [IntV 1, IntV 0, IntV 1, IntV 0] (map np_round [9 / 10, 1 / 5, 1 / 5, 1 / 5])
   = Inr (3 / 4)"
  by (simp add: example_accuracy_score_def np_round_examples)

theorem evaluate_writes_two_metrics_witness:
  "evaluate (Inr example_predict) example_accuracy_score example_roc_auc_score example_test_csv
     = Inr (report_dict (3 / 4) (1 / 2))
   \<and> numbers (report_dict (3 / 4) (1 / 2))
        = [([''binary_classification_metrics'', ''accuracy'', ''value''], 3 / 4),
           ([''binary_classification_metrics'', ''auc'', ''value''], 1 / 2)]"
proof -
  have auc: "example_roc_auc_score [IntV 1, IntV 0, IntV 1, IntV 0]
      (map np_round [9 / 10, 1 / 5, 1 / 5, 1 / 5]) = Inr (1 / 2)"
    by (simp add: example_roc_auc_score_def)
  note t = evaluate_writes_two_metrics
    [where load_model = "Inr example_predict" and predict = example_predict
       and accuracy_score = example_accuracy_score
       and roc_auc_score = example_roc_auc_score,
     OF refl example_read_test example_predictions example_accuracy auc]
  show ?thesis using t by blast
qed

subsection \<open>The split points\<close>

lemma bit_length_bounds: "0 < n \<Longrightarrow> 2 ^ (bit_length n - 1) \<le> n \<and> n < 2 ^ bit_length n"
proof (induction n rule: bit_length.induct)
  case (1 n)
  show ?case
  proof (cases "n div 2 = 0")
    case True
    then have "n = 1" using "1.prems" by auto
    then show ?thesis by (simp add: bit_length.simps[of "Suc 0"] bit_length.simps[of 0])
  next
    case False
    then have ih: "2 ^ (bit_length (n div 2) - 1) \<le> n div 2" "n div 2 < 2 ^ bit_length (n div 2)"
      using "1.IH" "1.prems" by auto
    have pos: "0 < bit_length (n div 2)"
      using False by (simp add: bit_length.simps[of "n div 2"])
    have bl: "bit_length n = Suc (bit_length (n div 2))"
      using "1.prems" by (simp add: bit_length.simps[of n])
    have eq: "(2::nat) ^ (bit_length n - 1) = 2 * 2 ^ (bit_length (n div 2) - 1)"
      using pos bl by (cases "bit_length (n div 2)") auto
    have "2 * (n div 2) \<le> n" by simp
    then have lo: "2 ^ (bit_length n - 1) \<le> n" using ih(1) eq by linarith
    have "n < 2 * (n div 2) + 2" by presburger
    then have "n < 2 * 2 ^ bit_length (n div 2)" using ih(2) by linarith
    then show ?thesis using lo bl by simp
  qed
qed

text \<open>Rounding to 53 bits moves a number by at most a \<open>2^53\<close>-th of itself.\<close>

lemma round53_error:
  "2 ^ 53 * round53 q \<le> (2 ^ 53 + 1) * q \<and> (2 ^ 53 - 1) * q \<le> 2 ^ 53 * round53 q"
proof (cases "bit_length q - 53 = 0")
  case True
  then have "round53 q = q" by (simp add: round53_def)
  then show ?thesis by (simp add: algebra_simps)
next
  case False
  define e where "e = bit_length q - 53"
  define h :: nat where "h = 2 ^ (e - 1)"
  define r where "r = q div 2 ^ e"
  define t where "t = q mod 2 ^ e"
  have e: "0 < e" "bit_length q = e + 53" using False by (auto simp: e_def)
  then have qpos: "0 < q" by (cases "q = 0") (auto simp: bit_length.simps[of 0])
  have pe: "(2::nat) ^ e = 2 * h" using e(1) by (cases e) (auto simp: h_def)
  have "(2::nat) ^ (bit_length q - 1) \<le> q" using bit_length_bounds[OF qpos] by simp
  moreover have "(2::nat) ^ (bit_length q - 1) = 2 ^ 53 * h"
  proof -
    have "bit_length q - 1 = 53 + (e - 1)" using e by simp
    then show ?thesis by (simp add: power_add h_def)
  qed
  ultimately have big: "2 ^ 53 * h \<le> q" by simp
  have q: "q = r * (2 * h) + t" unfolding r_def t_def pe by (rule div_mult_mod_eq[symmetric])
  have hpos: "0 < h" by (simp add: h_def)
  have t: "t < 2 * h" unfolding t_def pe using hpos by simp
  define R where "R = (if t < h then r else if h < t then r + 1 else if even r then r else r + 1) * 2 ^ e"
  have R: "round53 q = R"
    unfolding round53_def Let_def R_def r_def t_def h_def e_def using False by simp
  have near: "R \<le> q + h \<and> q \<le> R + h"
    using q t by (auto simp: R_def pe algebra_simps)
  have "2 ^ 53 * R \<le> 2 ^ 53 * q + 2 ^ 53 * h"
    using near by (metis add_mult_distrib2 mult_le_mono2)
  then have up: "2 ^ 53 * R \<le> (2 ^ 53 + 1) * q" using big by (simp add: algebra_simps)
  have "2 ^ 53 * q \<le> 2 ^ 53 * R + 2 ^ 53 * h"
    using near by (metis add_mult_distrib2 mult_le_mono2)
  then have "2 ^ 53 * q \<le> 2 ^ 53 * R + q" using big by linarith
  then have lo: "(2 ^ 53 - 1) * q \<le> 2 ^ 53 * R" by (simp add: algebra_simps diff_mult_distrib)
  show ?thesis using up lo R by simp
qed

lemma int_of_product_90: "int_of_product lit_0_7 90 = 62" "int_of_product lit_0_9 90 = 81"
  by (simp_all add: int_of_product_def lit_0_7_def lit_0_9_def round53_def bit_length.simps Let_def)


lemma split_points:
  "int_of_product lit_0_7 n \<le> int_of_product lit_0_9 n
   \<and> int_of_product lit_0_9 n \<le> n
   \<and> (0 < n \<longrightarrow> int_of_product lit_0_9 n < n)"
proof -
  define N where "N = round53 n"
  define X7 where "X7 = round53 (lit_0_7 * N)"
  define X9 where "X9 = round53 (lit_0_9 * N)"
  have n: "9007199254740992 * N \<le> 9007199254740993 * n"
    using round53_error[of n] by (simp add: N_def)
  have x7: "9007199254740992 * X7 \<le> 9007199254740993 * (6305039478318694 * N)"
    using round53_error[of "lit_0_7 * N"] by (simp add: X7_def lit_0_7_def)
  have x9: "9007199254740991 * (8106479329266893 * N) \<le> 9007199254740992 * X9"
    "9007199254740992 * X9 \<le> 9007199254740993 * (8106479329266893 * N)"
    using round53_error[of "lit_0_9 * N"] by (simp_all add: X9_def lit_0_9_def)
  have le: "X7 \<le> X9" using x7 x9(1) by linarith
  have lt: "X9 < 2 ^ 53 * n" if "0 < n" using that n x9(2) by simp
  have zero: "X9 = 0" if "n = 0"
  proof -
    have "N = 0" using n that by simp
    then show ?thesis using x9(2) by simp
  qed
  have a: "int_of_product lit_0_7 n = X7 div 2 ^ 53" "int_of_product lit_0_9 n = X9 div 2 ^ 53"
    by (simp_all add: int_of_product_def X7_def X9_def N_def)
  have "X7 div 2 ^ 53 \<le> X9 div 2 ^ 53" using le by (rule div_le_mono)
  moreover have "X9 div 2 ^ 53 < n" if "0 < n"
    using lt[OF that] by (simp add: less_mult_imp_div_less mult.commute)
  moreover have "X9 div 2 ^ 53 \<le> n"
  proof (cases "n = 0")
    case True
    then show ?thesis using zero by simp
  next
    case False
    then have "X9 div 2 ^ 53 < n" using \<open>0 < n \<Longrightarrow> X9 div 2 ^ 53 < n\<close> by simp
    then show ?thesis by simp
  qed
  ultimately show ?thesis using a by simp
qed

subsection \<open>Shuffling and splitting\<close>

lemma np_split_two:
  "np_split xs [a, b] = [py_slice 0 a xs, py_slice a b xs, py_slice b (length xs) xs]"
  by (simp add: np_split_def Let_def numeral_3_eq_3)

lemma slices_partition:
  assumes "a \<le> b" "b \<le> length xs"
  shows "py_slice 0 a xs @ py_slice a b xs @ py_slice b (length xs) xs = xs"
proof -
  have "drop (b - a) (drop a xs) = drop b xs" using assms by (simp add: drop_drop)
  moreover have "take (b - a) (drop a xs) @ drop (b - a) (drop a xs) = drop a xs"
    by (rule append_take_drop_id)
  ultimately have "take (b - a) (drop a xs) @ drop b xs = drop a xs" by simp
  then show ?thesis by (simp add: py_slice_def)
qed

lemma length_rows_of: "length (rows_of df) = len df"
  by (simp add: rows_of_def)

lemma sample_permutes:
  assumes "mset (permutation (length rows)) = mset [0..<length rows]"
  shows "mset (sample permutation rows) = mset rows"
    and "length (sample permutation rows) = length rows"
proof -
  have "mset (sample permutation rows)
        = image_mset (\<lambda>i. rows ! i) (mset (permutation (length rows)))"
    unfolding sample_def by (rule mset_map)
  also have "\<dots> = image_mset (\<lambda>i. rows ! i) (mset [0..<length rows])"
    by (simp only: assms)
  also have "\<dots> = mset (map (\<lambda>i. rows ! i) [0..<length rows])"
    by (rule mset_map[symmetric])
  also have "\<dots> = mset rows" by (simp only: map_nth)
  finally show "mset (sample permutation rows) = mset rows" .
  then show "length (sample permutation rows) = length rows" by (metis size_mset)
qed

text \<open>
  C8.  For every frame of \<open>n\<close> rows, with \<open>a\<close> and \<open>b\<close> the values of
  \<^verbatim>\<open>int(0.7 * n)\<close> and \<^verbatim>\<open>int(0.9 * n)\<close>: \<open>a \<le> b \<le> n\<close>, the train file has \<open>a\<close> rows,
  the validation file \<open>b - a\<close> and the test file \<open>n - b\<close>; the three files in this
  order are the shuffled rows, and, the shuffle being a permutation, they hold every row
  of the frame exactly as often as the frame does.
\<close>

theorem split_data_partitions_rows:
  assumes "mset (permutation (len model_data)) = mset [0..<len model_data]"
  shows "int_of_product lit_0_7 (len model_data) \<le> int_of_product lit_0_9 (len model_data)
    \<and> int_of_product lit_0_9 (len model_data) \<le> len model_data
    \<and> length (train_csv (split_data permutation model_data))
        = int_of_product lit_0_7 (len model_data)
    \<and> length (validation_csv (split_data permutation model_data))
        = int_of_product lit_0_9 (len model_data) - int_of_product lit_0_7 (len model_data)
    \<and> length (test_csv (split_data permutation model_data))
        = len model_data - int_of_product lit_0_9 (len model_data)
    \<and> train_csv (split_data permutation model_data)
        @ validation_csv (split_data permutation model_data)
        @ test_csv (split_data permutation model_data)
        = sample permutation (rows_of model_data)
    \<and> mset (train_csv (split_data permutation model_data))
        + mset (validation_csv (split_data permutation model_data))
        + mset (test_csv (split_data permutation model_data))
        = mset (rows_of model_data)"
proof -
  define n where "n = len model_data"
  define a where "a = int_of_product lit_0_7 n"
  define b where "b = int_of_product lit_0_9 n"
  define xs where "xs = sample permutation (rows_of model_data)"
  have p: "mset (permutation (length (rows_of model_data))) = mset [0..<length (rows_of model_data)]"
    using assms by (simp add: length_rows_of)
  have len: "length xs = n"
    using sample_permutes(2)[of permutation "rows_of model_data", OF p] by (simp add: xs_def n_def length_rows_of)
  have ms: "mset xs = mset (rows_of model_data)"
    using sample_permutes(1)[of permutation "rows_of model_data", OF p] by (simp add: xs_def)
  have ab: "a \<le> b" "b \<le> n" using split_points[of n] by (simp_all add: a_def b_def)
  have out: "train_csv (split_data permutation model_data) = py_slice 0 a xs"
    "validation_csv (split_data permutation model_data) = py_slice a b xs"
    "test_csv (split_data permutation model_data) = py_slice b (length xs) xs"
    by (simp_all add: split_data_def np_split_two Let_def xs_def a_def b_def n_def)
  have cat: "py_slice 0 a xs @ py_slice a b xs @ py_slice b (length xs) xs = xs"
    using ab len by (intro slices_partition) simp_all
  have "mset (py_slice 0 a xs) + mset (py_slice a b xs) + mset (py_slice b (length xs) xs)
        = mset (py_slice 0 a xs @ py_slice a b xs @ py_slice b (length xs) xs)"
    by simp
  then have m: "mset (py_slice 0 a xs) + mset (py_slice a b xs) + mset (py_slice b (length xs) xs)
        = mset (rows_of model_data)"
    by (simp only: cat ms)
  have l: "length (py_slice 0 a xs) = a" "length (py_slice a b xs) = b - a"
    "length (py_slice b (length xs) xs) = n - b"
    using ab len by (simp_all add: py_slice_def)
  show ?thesis
    unfolding out using ab l cat m by (simp add: a_def b_def n_def xs_def)
qed

subsection \<open>The frame operations\<close>

lemma drop_columns_Inr:
  "drop_columns labels df = Inr d
   \<longleftrightarrow> set labels \<subseteq> label ` set df \<and> d = filter (\<lambda>c. label c \<notin> set labels) df"
proof (cases "filter (\<lambda>l. l \<notin> label ` set df) labels")
  case Nil
  then have "set labels \<subseteq> label ` set df" by (auto simp: filter_empty_conv)
  then show ?thesis using Nil by (auto simp: drop_columns_def)
next
  case (Cons m ms)
  then have "m \<in> set (filter (\<lambda>l. l \<notin> label ` set df) labels)" by simp
  then have "\<not> set labels \<subseteq> label ` set df" by auto
  then show ?thesis using Cons by (simp add: drop_columns_def)
qed

lemma getitem_Inr:
  "getitem l df = Inr t \<longleftrightarrow> t = filter (\<lambda>c. label c = l) df \<and> t \<noteq> []"
  by (auto simp: getitem_def split: list.splits)

lemma astype_object_Inr:
  "astype_object l df = Inr d
   \<longleftrightarrow> l \<in> label ` set df
       \<and> d = map (\<lambda>c. if label c = l then c\<lparr>is_object := True\<rparr> else c) df"
proof -
  have "filter (\<lambda>c. label c = l) df \<noteq> [] \<longleftrightarrow> l \<in> label ` set df"
    by (auto simp: filter_empty_conv)
  then show ?thesis
    by (cases "getitem l df") (auto simp: astype_object_def getitem_def split: list.splits)
qed

lemma select_columns_Inr:
  assumes "select_columns df = Inr selected"
  shows "selected
         = map (\<lambda>c. if label c = ''Area Code'' then c\<lparr>is_object := True\<rparr> else c)
             (filter (\<lambda>c. label c \<notin> {''Phone'', ''Day Charge'', ''Eve Charge'',
                                        ''Night Charge'', ''Intl Charge''}) df)"
    and "{''Phone'', ''Day Charge'', ''Eve Charge'', ''Night Charge'', ''Intl Charge''}
         \<subseteq> label ` set df"
    and "''Area Code'' \<in> label ` set df"
proof -
  obtain df1 where d1: "drop_columns [''Phone''] df = Inr df1"
    using assms by (cases "drop_columns [''Phone''] df") (auto simp: select_columns_def)
  obtain df2 where d2: "astype_object ''Area Code'' df1 = Inr df2"
    using assms d1 by (cases "astype_object ''Area Code'' df1") (auto simp: select_columns_def)
  have d3: "drop_columns [''Day Charge'', ''Eve Charge'', ''Night Charge'', ''Intl Charge''] df2
            = Inr selected"
    using assms d1 d2 by (simp add: select_columns_def)
  have f1: "''Phone'' \<in> label ` set df" "df1 = filter (\<lambda>c. label c \<noteq> ''Phone'') df"
    using d1 by (simp_all add: drop_columns_Inr)
  have f2: "''Area Code'' \<in> label ` set df1"
    "df2 = map (\<lambda>c. if label c = ''Area Code'' then c\<lparr>is_object := True\<rparr> else c) df1"
    using d2 by (simp_all add: astype_object_Inr)
  have f3: "{''Day Charge'', ''Eve Charge'', ''Night Charge'', ''Intl Charge''} \<subseteq> label ` set df2"
    "selected = filter (\<lambda>c. label c \<notin> {''Day Charge'', ''Eve Charge'', ''Night Charge'',
                                         ''Intl Charge''}) df2"
    using d3 by (simp_all add: drop_columns_Inr)
  have "\<And>c. label (if label c = ''Area Code'' then c\<lparr>is_object := True\<rparr> else c) = label c"
    by simp
  then have "map label df2 = map label df1" unfolding f2(2) by (induction df1) simp_all
  then have l2: "label ` set df2 = label ` set df1" by (metis set_map)
  have l1: "label ` set df1 \<subseteq> label ` set df" unfolding f1(2) by auto
  show "''Area Code'' \<in> label ` set df" using f2(1) l1 by auto
  show "{''Phone'', ''Day Charge'', ''Eve Charge'', ''Night Charge'', ''Intl Charge''}
         \<subseteq> label ` set df"
    using f1(1) f3(1) l1 l2 by auto
  show "selected
         = map (\<lambda>c. if label c = ''Area Code'' then c\<lparr>is_object := True\<rparr> else c)
             (filter (\<lambda>c. label c \<notin> {''Phone'', ''Day Charge'', ''Eve Charge'',
                                        ''Night Charge'', ''Intl Charge''}) df)"
    unfolding f3(2) f2(2) f1(2) filter_map filter_filter
    by (rule arg_cong[where f = "map _"], rule filter_cong) (auto simp: comp_def)
qed

lemma set_insert_level: "set (insert_level x ys) = insert x (set ys)"
  by (induction ys) auto

lemma distinct_insert_level: "distinct (insert_level x ys) \<longleftrightarrow> x \<notin> set ys \<and> distinct ys"
  by (induction ys) (auto simp: set_insert_level)

lemma levels_foldr:
  "set (foldr insert_level xs []) = set xs
   \<and> (distinct xs \<longrightarrow> distinct (foldr insert_level xs []))"
  by (induction xs) (auto simp: set_insert_level distinct_insert_level)

lemma set_levels: "set (levels vs) = set vs"
  using levels_foldr[of "remdups vs"] by (simp add: levels_def)

lemma distinct_levels: "distinct (levels vs)"
  using levels_foldr[of "remdups vs"] by (simp add: levels_def)

lemma get_dummies_numeric: "c \<in> set (get_dummies float_repr df) \<Longrightarrow> \<not> is_object c"
  by (auto simp: get_dummies_def indicator_def)

lemma get_dummies_set:
  "set (get_dummies float_repr df)
   = {c \<in> set df. \<not> is_object c}
     \<union> {indicator float_repr c v | c v. c \<in> set df \<and> is_object c \<and> v \<in> set (cells c)}"
  by (auto simp: get_dummies_def set_levels)

lemma split_unique:
  assumes "a @ x # b = c @ x # d" "x \<notin> set c" "x \<notin> set d"
  shows "a = c \<and> b = d"
proof -
  from assms(1) consider us where "a = c @ us" "us @ x # b = x # d"
    | us where "a @ us = c" "x # b = us @ x # d"
    by (auto simp: append_eq_append_conv2)
  then show ?thesis
  proof cases
    case 1
    show ?thesis
    proof (cases us)
      case Nil
      then show ?thesis using 1 by simp
    next
      case (Cons u vs)
      then have "vs @ x # b = d" using 1(2) by simp
      then have "x \<in> set d" by auto
      then show ?thesis using assms(3) by blast
    qed
  next
    case 2
    show ?thesis
    proof (cases us)
      case Nil
      then show ?thesis using 2 by simp
    next
      case (Cons u vs)
      then have "u = x" using 2(2) by simp
      then have "x \<in> set c" using 2(1) Cons by auto
      then show ?thesis using assms(2) by blast
    qed
  qed
qed

lemma underscore_once:
  assumes "xs @ CHR ''_'' # ys = ''Churn?_True.''"
  shows "xs = ''Churn?'' \<and> ys = ''True.''"
proof -
  have "xs @ CHR ''_'' # ys = ''Churn?'' @ CHR ''_'' # ''True.''" using assms by simp
  then show ?thesis by (rule split_unique) simp_all
qed

subsection \<open>The preprocessing script\<close>

lemma target_first_Inr:
  assumes "target_first model_data = Inr r"
  shows "r = filter (\<lambda>c. label c = ''Churn?_True.'') model_data
           @ filter (\<lambda>c. label c \<notin> {''Churn?_False.'', ''Churn?_True.''}) model_data"
    and "filter (\<lambda>c. label c = ''Churn?_True.'') model_data \<noteq> []"
    and "''Churn?_False.'' \<in> label ` set model_data"
proof -
  obtain target where t: "getitem ''Churn?_True.'' model_data = Inr target"
    using assms by (cases "getitem ''Churn?_True.'' model_data") (auto simp: target_first_def)
  obtain features where f:
    "drop_columns [''Churn?_False.'', ''Churn?_True.''] model_data = Inr features"
    using assms t
    by (cases "drop_columns [''Churn?_False.'', ''Churn?_True.''] model_data")
      (auto simp: target_first_def)
  have r: "r = target @ features" using assms t f by (simp add: target_first_def)
  show "filter (\<lambda>c. label c = ''Churn?_True.'') model_data \<noteq> []"
    using t by (auto simp: getitem_Inr)
  show "''Churn?_False.'' \<in> label ` set model_data"
    using f by (simp add: drop_columns_Inr)
  show "r = filter (\<lambda>c. label c = ''Churn?_True.'') model_data
           @ filter (\<lambda>c. label c \<notin> {''Churn?_False.'', ''Churn?_True.''}) model_data"
    using r t f by (auto simp: getitem_Inr drop_columns_Inr)
qed

lemma preprocess_Inr:
  assumes "preprocess float_repr permutation df = Inr out"
  obtains selected model_data where
    "select_columns df = Inr selected"
    "target_first (get_dummies float_repr selected) = Inr model_data"
    "out = split_data permutation model_data"
proof -
  obtain selected where s: "select_columns df = Inr selected"
    using assms by (cases "select_columns df") (auto simp: preprocess_def)
  obtain model_data where m: "target_first (get_dummies float_repr selected) = Inr model_data"
    using assms s
    by (cases "target_first (get_dummies float_repr selected)") (auto simp: preprocess_def)
  have "out = split_data permutation model_data" using assms s m by (simp add: preprocess_def)
  then show ?thesis using s m that by blast
qed

lemma split_data_files:
  "train_csv (split_data permutation model_data)
     = take (int_of_product lit_0_7 (len model_data)) (sample permutation (rows_of model_data))"
  "validation_csv (split_data permutation model_data)
     = take (int_of_product lit_0_9 (len model_data) - int_of_product lit_0_7 (len model_data))
         (drop (int_of_product lit_0_7 (len model_data))
           (sample permutation (rows_of model_data)))"
  "test_csv (split_data permutation model_data)
     = drop (int_of_product lit_0_9 (len model_data)) (sample permutation (rows_of model_data))"
  by (simp_all add: split_data_def np_split_two Let_def py_slice_def)

text \<open>
  C5.  Whenever the script completes: the five columns \<^verbatim>\<open>Phone\<close>, \<^verbatim>\<open>Day Charge\<close>,
  \<^verbatim>\<open>Eve Charge\<close>, \<^verbatim>\<open>Night Charge\<close>, \<^verbatim>\<open>Intl Charge\<close> were columns of the input, and the
  columns kept are all the others, unchanged but for the dtype of \<^verbatim>\<open>Area Code\<close>;
  \<^verbatim>\<open>get_dummies\<close> keeps the numeric ones and replaces every \<^verbatim>\<open>object\<close> column by one 0/1
  indicator column per value it holds, so that no \<^verbatim>\<open>object\<close> column is left; and the
  three files are the shuffled rows of the label-first frame up to \<^verbatim>\<open>int(0.7 * n)\<close>,
  from there up to \<^verbatim>\<open>int(0.9 * n)\<close>, and from there on.  Which columns go and where
  the rows are cut depends on no cell of the data.
\<close>

theorem preprocess_recipe:
  assumes "preprocess float_repr permutation df = Inr out"
  shows "\<exists>selected model_data.
       {''Phone'', ''Day Charge'', ''Eve Charge'', ''Night Charge'', ''Intl Charge''}
         \<subseteq> label ` set df
     \<and> selected
         = map (\<lambda>c. if label c = ''Area Code'' then c\<lparr>is_object := True\<rparr> else c)
             (filter (\<lambda>c. label c \<notin> {''Phone'', ''Day Charge'', ''Eve Charge'',
                                        ''Night Charge'', ''Intl Charge''}) df)
     \<and> set (get_dummies float_repr selected)
         = {c \<in> set selected. \<not> is_object c}
           \<union> {\<lparr>label = label c @ ''_'' @ py_str float_repr v, is_object = False,
                cells = map (\<lambda>x. IntV (if x = v then 1 else 0)) (cells c)\<rparr> | c v.
               c \<in> set selected \<and> is_object c \<and> v \<in> set (cells c)}
     \<and> (\<forall>c \<in> set (get_dummies float_repr selected). \<not> is_object c)
     \<and> model_data
         = filter (\<lambda>c. label c = ''Churn?_True.'') (get_dummies float_repr selected)
           @ filter (\<lambda>c. label c \<notin> {''Churn?_False.'', ''Churn?_True.''})
               (get_dummies float_repr selected)
     \<and> train_csv out
         = take (int_of_product lit_0_7 (len model_data))
             (sample permutation (rows_of model_data))
     \<and> validation_csv out
         = take (int_of_product lit_0_9 (len model_data)
                 - int_of_product lit_0_7 (len model_data))
             (drop (int_of_product lit_0_7 (len model_data))
               (sample permutation (rows_of model_data)))
     \<and> test_csv out
         = drop (int_of_product lit_0_9 (len model_data))
             (sample permutation (rows_of model_data))"
proof -
  from assms obtain selected model_data where
    s: "select_columns df = Inr selected"
    and m: "target_first (get_dummies float_repr selected) = Inr model_data"
    and o: "out = split_data permutation model_data"
    by (rule preprocess_Inr)
  have g: "set (get_dummies float_repr selected)
         = {c \<in> set selected. \<not> is_object c}
           \<union> {\<lparr>label = label c @ ''_'' @ py_str float_repr v, is_object = False,
                cells = map (\<lambda>x. IntV (if x = v then 1 else 0)) (cells c)\<rparr> | c v.
               c \<in> set selected \<and> is_object c \<and> v \<in> set (cells c)}"
    unfolding get_dummies_set indicator_def by (rule refl)
  have n: "\<forall>c \<in> set (get_dummies float_repr selected). \<not> is_object c"
    using get_dummies_numeric by blast
  show ?thesis
    apply (rule exI[of _ selected], rule exI[of _ model_data])
    apply (intro conjI)
    subgoal by (rule select_columns_Inr(2)[OF s])
    subgoal by (rule select_columns_Inr(1)[OF s])
    subgoal by (rule g)
    subgoal by (rule n)
    subgoal by (rule target_first_Inr(1)[OF m])
    subgoal unfolding o by (rule split_data_files(1))
    subgoal unfolding o by (rule split_data_files(2))
    subgoal unfolding o by (rule split_data_files(3))
    done
qed

lemma map_hd_rows_of: "df \<noteq> [] \<Longrightarrow> map hd (rows_of df) = cells (hd df)"
proof -
  assume "df \<noteq> []"
  then obtain c cs where df: "df = c # cs" by (cases df) auto
  have "map hd (rows_of df) = map (\<lambda>i. cells c ! i) [0..<length (cells c)]"
    by (simp add: rows_of_def len_def df comp_def)
  then show ?thesis by (simp add: map_nth df)
qed

lemma rows_of_nonempty: "df \<noteq> [] \<Longrightarrow> r \<in> set (rows_of df) \<Longrightarrow> r \<noteq> []"
  by (auto simp: rows_of_def)

lemma sample_map:
  assumes "set (permutation (length rows)) \<subseteq> {..<length rows}"
  shows "map f (sample permutation rows) = sample permutation (map f rows)"
  using assms by (auto simp: sample_def)

lemma sample_subset:
  assumes "set (permutation (length rows)) \<subseteq> {..<length rows}"
  shows "set (sample permutation rows) \<subseteq> set rows"
  using assms by (auto simp: sample_def)

subsection \<open>The script on an example\<close>

lemma example_select: "select_columns example_frame = Inr example_selected"
  by (simp add: select_columns_def drop_columns_def astype_object_def getitem_def
      example_frame_def example_selected_def)

lemma example_levels:
  "levels [StrV ''KS'', StrV ''OH'', StrV ''KS'', StrV ''NJ''] = [StrV ''KS'', StrV ''NJ'', StrV ''OH'']"
  "levels [IntV 415, IntV 408, IntV 415, IntV 510] = [IntV 408, IntV 415, IntV 510]"
  "levels [StrV ''False.'', StrV ''True.'', StrV ''False.'', StrV ''True.''] = [StrV ''False.'', StrV ''True.'']"
  by (simp_all add: levels_def)

lemma example_decimal: "decimal 408 = ''408''" "decimal 415 = ''415''" "decimal 510 = ''510''"
  by code_simp+

lemma example_dummies:
  "get_dummies (\<lambda>_. ''?'') example_selected
   = [\<lparr>label = ''Day Mins'', is_object = False,
       cells = [FloatV (2651 / 10), FloatV (808 / 5), FloatV (1217 / 5), FloatV (1497 / 5)]\<rparr>,
      \<lparr>label = ''State_KS'', is_object = False, cells = [IntV 1, IntV 0, IntV 1, IntV 0]\<rparr>,
      \<lparr>label = ''State_NJ'', is_object = False, cells = [IntV 0, IntV 0, IntV 0, IntV 1]\<rparr>,
      \<lparr>label = ''State_OH'', is_object = False, cells = [IntV 0, IntV 1, IntV 0, IntV 0]\<rparr>,
      \<lparr>label = ''Area Code_408'', is_object = False, cells = [IntV 0, IntV 1, IntV 0, IntV 0]\<rparr>,
      \<lparr>label = ''Area Code_415'', is_object = False, cells = [IntV 1, IntV 0, IntV 1, IntV 0]\<rparr>,
      \<lparr>label = ''Area Code_510'', is_object = False, cells = [IntV 0, IntV 0, IntV 0, IntV 1]\<rparr>,
      \<lparr>label = ''Churn?_False.'', is_object = False, cells = [IntV 1, IntV 0, IntV 1, IntV 0]\<rparr>,
      \<lparr>label = ''Churn?_True.'', is_object = False, cells = [IntV 0, IntV 1, IntV 0, IntV 1]\<rparr>]"
  unfolding get_dummies_def example_selected_def indicator_def
  by (simp add: example_levels example_decimal del: decimal.simps)

lemma example_target_first:
  "target_first (get_dummies (\<lambda>_. ''?'') example_selected) = Inr example_model_data"
  unfolding example_dummies
  by (simp add: target_first_def getitem_def drop_columns_def example_model_data_def)

lemma example_split_points: "int_of_product lit_0_7 4 = 2" "int_of_product lit_0_9 4 = 3"
  by (simp_all add: int_of_product_def lit_0_7_def lit_0_9_def round53_def bit_length.simps Let_def)

lemma example_len: "len example_model_data = 4"
  by (simp add: len_def example_model_data_def)

lemma example_rows:
  "rows_of example_model_data
   = [[IntV 0, FloatV (2651 / 10), IntV 1, IntV 0, IntV 0, IntV 0, IntV 1, IntV 0],
      [IntV 1, FloatV (808 / 5), IntV 0, IntV 0, IntV 1, IntV 1, IntV 0, IntV 0],
      [IntV 0, FloatV (1217 / 5), IntV 1, IntV 0, IntV 0, IntV 0, IntV 1, IntV 0],
      [IntV 1, FloatV (1497 / 5), IntV 0, IntV 1, IntV 0, IntV 0, IntV 0, IntV 1]]"
  by (simp add: rows_of_def example_len upt_rec[of _ "numeral _"]) (simp add: example_model_data_def)

lemma example_sample:
  "sample example_permutation (rows_of example_model_data)
   = [[IntV 1, FloatV (1497 / 5), IntV 0, IntV 1, IntV 0, IntV 0, IntV 0, IntV 1],
      [IntV 0, FloatV (1217 / 5), IntV 1, IntV 0, IntV 0, IntV 0, IntV 1, IntV 0],
      [IntV 1, FloatV (808 / 5), IntV 0, IntV 0, IntV 1, IntV 1, IntV 0, IntV 0],
      [IntV 0, FloatV (2651 / 10), IntV 1, IntV 0, IntV 0, IntV 0, IntV 1, IntV 0]]"
  unfolding example_rows
  by (simp add: sample_def example_permutation_def upt_rec[of _ "numeral _"])

lemma example_split:
  "split_data example_permutation example_model_data = example_outputs"
  by (simp add: split_data_def np_split_two Let_def example_sample example_len
      example_split_points py_slice_def example_outputs_def)

lemma example_preprocess:
  "preprocess (\<lambda>_. ''?'') example_permutation example_frame = Inr example_outputs"
  by (simp add: preprocess_def example_select example_target_first example_split)

lemma example_permutation_mset: "mset (example_permutation n) = mset [0..<n]"
  unfolding example_permutation_def by (rule mset_rev)

subsection \<open>The label column\<close>

lemma read_test_Inr:
  "rows \<noteq> [] \<Longrightarrow> hd rows \<noteq> [] \<Longrightarrow> read_test rows = Inr (map hd rows, map tl rows)"
  by (cases rows) (simp_all add: read_test_def)

lemma target_column:
  assumes s: "select_columns df = Inr selected"
    and w: "read_csv_frame df"
    and nc: "''Churn?_True.'' \<notin> label ` set df"
    and t: "t \<in> set (get_dummies float_repr selected)" "label t = ''Churn?_True.''"
  shows "\<exists>churn \<in> set df. label churn = ''Churn?'' \<and> StrV ''True.'' \<in> set (cells churn)
           \<and> cells t = map (\<lambda>v. IntV (if v = StrV ''True.'' then 1 else 0)) (cells churn)"
proof -
  note sel = select_columns_Inr(1)[OF s]
  have from_df: "\<exists>c0 \<in> set df. label c0 = label c \<and> (label c \<noteq> ''Area Code'' \<longrightarrow> c = c0)"
    if "c \<in> set selected" for c
    using that unfolding sel by auto
  from t(1) consider "t \<in> set selected"
    | c v where "c \<in> set selected" "is_object c" "v \<in> set (cells c)"
        "t = indicator float_repr c v"
    unfolding get_dummies_set by blast
  then show ?thesis
  proof cases
    case 1
    then have "label t \<in> label ` set df" using from_df by force
    then show ?thesis using t(2) nc by simp
  next
    case 2
    have "label c @ CHR ''_'' # py_str float_repr v = ''Churn?_True.''"
      using 2(4) t(2) by (simp add: indicator_def)
    then have l: "label c = ''Churn?''" and p: "py_str float_repr v = ''True.''"
      using underscore_once by blast+
    have "label c \<noteq> ''Area Code''" using l by simp
    then have c: "c \<in> set df" using from_df[OF 2(1)] by auto
    have "is_object c = (case v of StrV _ \<Rightarrow> True | _ \<Rightarrow> False)"
      using w c 2(3) by (simp add: read_csv_frame_def)
    then obtain s where "v = StrV s" using 2(2) by (cases v) simp_all
    then have v: "v = StrV ''True.''" using p by simp
    have "cells t = map (\<lambda>x. IntV (if x = StrV ''True.'' then 1 else 0)) (cells c)"
      using 2(4) v by (simp add: indicator_def)
    then show ?thesis using c l 2(3) v by blast
  qed
qed

lemma raw_label_select:
  "select_columns raw_label_frame
   = Inr (example_selected
          @ [\<lparr>label = ''Churn?_True.'', is_object = False,
              cells = [IntV 7, IntV 8, IntV 9, IntV 6]\<rparr>])"
  by (simp add: select_columns_def drop_columns_def astype_object_def getitem_def
      raw_label_frame_def example_frame_def example_selected_def)

lemma raw_label_dummies:
  "get_dummies example_float_repr
     (example_selected
      @ [\<lparr>label = ''Churn?_True.'', is_object = False,
          cells = [IntV 7, IntV 8, IntV 9, IntV 6]\<rparr>])
   = [\<lparr>label = ''Day Mins'', is_object = False,
       cells = [FloatV (2651 / 10), FloatV (808 / 5), FloatV (1217 / 5), FloatV (1497 / 5)]\<rparr>,
      \<lparr>label = ''Churn?_True.'', is_object = False, cells = [IntV 7, IntV 8, IntV 9, IntV 6]\<rparr>,
      \<lparr>label = ''State_KS'', is_object = False, cells = [IntV 1, IntV 0, IntV 1, IntV 0]\<rparr>,
      \<lparr>label = ''State_NJ'', is_object = False, cells = [IntV 0, IntV 0, IntV 0, IntV 1]\<rparr>,
      \<lparr>label = ''State_OH'', is_object = False, cells = [IntV 0, IntV 1, IntV 0, IntV 0]\<rparr>,
      \<lparr>label = ''Area Code_408'', is_object = False, cells = [IntV 0, IntV 1, IntV 0, IntV 0]\<rparr>,
      \<lparr>label = ''Area Code_415'', is_object = False, cells = [IntV 1, IntV 0, IntV 1, IntV 0]\<rparr>,
      \<lparr>label = ''Area Code_510'', is_object = False, cells = [IntV 0, IntV 0, IntV 0, IntV 1]\<rparr>,
      \<lparr>label = ''Churn?_False.'', is_object = False, cells = [IntV 1, IntV 0, IntV 1, IntV 0]\<rparr>,
      \<lparr>label = ''Churn?_True.'', is_object = False, cells = [IntV 0, IntV 1, IntV 0, IntV 1]\<rparr>]"
  unfolding get_dummies_def example_selected_def indicator_def
  by (simp add: example_levels example_decimal del: decimal.simps)

lemma raw_label_target_first:
  "target_first
     (get_dummies example_float_repr
       (example_selected
        @ [\<lparr>label = ''Churn?_True.'', is_object = False,
            cells = [IntV 7, IntV 8, IntV 9, IntV 6]\<rparr>]))
   = Inr raw_label_model_data"
  unfolding raw_label_dummies
  by (simp add: target_first_def getitem_def drop_columns_def raw_label_model_data_def)

lemma raw_label_len: "len raw_label_model_data = 4" "len raw_label_frame = 4"
  by (simp_all add: len_def raw_label_model_data_def raw_label_frame_def example_frame_def)

lemma raw_label_rows:
  "rows_of raw_label_model_data
   = [[IntV 7, IntV 0, FloatV (2651 / 10), IntV 1, IntV 0, IntV 0, IntV 0, IntV 1, IntV 0],
      [IntV 8, IntV 1, FloatV (808 / 5), IntV 0, IntV 0, IntV 1, IntV 1, IntV 0, IntV 0],
      [IntV 9, IntV 0, FloatV (1217 / 5), IntV 1, IntV 0, IntV 0, IntV 0, IntV 1, IntV 0],
      [IntV 6, IntV 1, FloatV (1497 / 5), IntV 0, IntV 1, IntV 0, IntV 0, IntV 0, IntV 1]]"
  by (simp add: rows_of_def raw_label_len upt_rec[of _ "numeral _"])
    (simp add: raw_label_model_data_def)

lemma raw_label_sample:
  "sample example_permutation (rows_of raw_label_model_data)
   = [[IntV 6, IntV 1, FloatV (1497 / 5), IntV 0, IntV 1, IntV 0, IntV 0, IntV 0, IntV 1],
      [IntV 9, IntV 0, FloatV (1217 / 5), IntV 1, IntV 0, IntV 0, IntV 0, IntV 1, IntV 0],
      [IntV 8, IntV 1, FloatV (808 / 5), IntV 0, IntV 0, IntV 1, IntV 1, IntV 0, IntV 0],
      [IntV 7, IntV 0, FloatV (2651 / 10), IntV 1, IntV 0, IntV 0, IntV 0, IntV 1, IntV 0]]"
  unfolding raw_label_rows
  by (simp add: sample_def example_permutation_def upt_rec[of _ "numeral _"])

lemma raw_label_preprocess:
  "preprocess example_float_repr example_permutation raw_label_frame = Inr raw_label_outputs"
  by (simp add: preprocess_def raw_label_select raw_label_target_first split_data_def
      np_split_two Let_def raw_label_sample raw_label_len example_split_points py_slice_def
      raw_label_outputs_def)

lemma raw_label_frame_read_csv: "read_csv_frame raw_label_frame"
  by (simp add: read_csv_frame_def raw_label_frame_def example_frame_def len_def)

text \<open>
  The sentence of C9 as it stands, for every input dataset.  The frame
  \<open>raw_label_frame\<close> is as \<^verbatim>\<open>read_csv\<close> returns one, and one of its columns is numeric and
  labelled \<^verbatim>\<open>Churn?_True.\<close>, with the values 7, 8, 9, 6.  The script completes on it;
  \<^verbatim>\<open>model_data["Churn?_True."]\<close> selects that column before the indicator column, so
  that the first column of the three files holds 6, 9, 8 and 7, the indicator of the
  churn label is their second column, and the evaluation script takes 7 for a label.
\<close>

theorem raw_label_column_first_counterexample:
  "read_csv_frame raw_label_frame
   \<and> mset (example_permutation (len raw_label_frame)) = mset [0..<len raw_label_frame]
   \<and> preprocess example_float_repr example_permutation raw_label_frame = Inr raw_label_outputs
   \<and> map hd (train_csv raw_label_outputs) = [IntV 6, IntV 9]
   \<and> map hd (validation_csv raw_label_outputs) = [IntV 8]
   \<and> map hd (test_csv raw_label_outputs) = [IntV 7]
   \<and> map hd (map tl (train_csv raw_label_outputs)) = [IntV 1, IntV 0]
   \<and> map hd (map tl (validation_csv raw_label_outputs)) = [IntV 1]
   \<and> map hd (map tl (test_csv raw_label_outputs)) = [IntV 0]
   \<and> read_test (test_csv raw_label_outputs)
       = Inr ([IntV 7],
              [[IntV 0, FloatV (2651 / 10), IntV 1, IntV 0, IntV 0, IntV 0, IntV 1, IntV 0]])"
proof -
  have "map hd (train_csv raw_label_outputs) = [IntV 6, IntV 9]"
    "map hd (validation_csv raw_label_outputs) = [IntV 8]"
    "map hd (test_csv raw_label_outputs) = [IntV 7]"
    "map hd (map tl (train_csv raw_label_outputs)) = [IntV 1, IntV 0]"
    "map hd (map tl (validation_csv raw_label_outputs)) = [IntV 1]"
    "map hd (map tl (test_csv raw_label_outputs)) = [IntV 0]"
    "read_test (test_csv raw_label_outputs)
       = Inr ([IntV 7],
              [[IntV 0, FloatV (2651 / 10), IntV 1, IntV 0, IntV 0, IntV 0, IntV 1, IntV 0]])"
    by (simp_all add: raw_label_outputs_def read_test_def)
  then show ?thesis
    using raw_label_frame_read_csv raw_label_preprocess
      example_permutation_mset[of "len raw_label_frame"]
    by simp
qed

text \<open>
  C9, amended.  For a frame as \<^verbatim>\<open>read_csv\<close> returns it, with no column that is itself labelled
  \<^verbatim>\<open>Churn?_True.\<close>, and a shuffle that is a permutation: when the script completes,
  the first column of each of the three files is the 0/1 indicator of the value
  \<^verbatim>\<open>True.\<close> in the column \<^verbatim>\<open>Churn?\<close>, for the rows of that file in shuffled order; and
  what the evaluation script takes from \<^verbatim>\<open>test.csv\<close> is that first column as the labels
  and the remaining columns as the features.
\<close>

theorem label_column_first:
  assumes p: "preprocess float_repr permutation df = Inr out"
    and w: "read_csv_frame df"
    and nc: "''Churn?_True.'' \<notin> label ` set df"
    and pm: "mset (permutation (len df)) = mset [0..<len df]"
  shows "\<exists>churn \<in> set df. label churn = ''Churn?''
     \<and> map hd (train_csv out)
         = take (int_of_product lit_0_7 (len df))
             (sample permutation
               (map (\<lambda>v. IntV (if v = StrV ''True.'' then 1 else 0)) (cells churn)))
     \<and> map hd (validation_csv out)
         = take (int_of_product lit_0_9 (len df) - int_of_product lit_0_7 (len df))
             (drop (int_of_product lit_0_7 (len df))
               (sample permutation
                 (map (\<lambda>v. IntV (if v = StrV ''True.'' then 1 else 0)) (cells churn))))
     \<and> map hd (test_csv out)
         = drop (int_of_product lit_0_9 (len df))
             (sample permutation
               (map (\<lambda>v. IntV (if v = StrV ''True.'' then 1 else 0)) (cells churn)))
     \<and> read_test (test_csv out) = Inr (map hd (test_csv out), map tl (test_csv out))"
proof -
  from p obtain selected model_data where
    s: "select_columns df = Inr selected"
    and m: "target_first (get_dummies float_repr selected) = Inr model_data"
    and o: "out = split_data permutation model_data"
    by (rule preprocess_Inr)
  let ?D = "get_dummies float_repr selected"
  let ?T = "filter (\<lambda>c. label c = ''Churn?_True.'') ?D"
  let ?F = "\<lambda>v. IntV (if v = StrV ''True.'' then 1 else 0)"
  have T: "?T \<noteq> []" by (rule target_first_Inr(2)[OF m])
  have md: "model_data = ?T @ filter (\<lambda>c. label c \<notin> {''Churn?_False.'', ''Churn?_True.''}) ?D"
    by (rule target_first_Inr(1)[OF m])
  define t where "t = hd ?T"
  have "t \<in> set ?T" unfolding t_def using T by (rule hd_in_set)
  then have t: "t \<in> set ?D" "label t = ''Churn?_True.''" by auto
  obtain churn where churn: "churn \<in> set df" "label churn = ''Churn?''"
    "StrV ''True.'' \<in> set (cells churn)" "cells t = map ?F (cells churn)"
    using target_column[OF s w nc t] by blast
  have hd_md: "hd model_data = t" "model_data \<noteq> []" using T by (simp_all add: md t_def)
  have "length (cells churn) = len df" using w churn(1) by (simp add: read_csv_frame_def)
  then have n: "len model_data = len df"
    using hd_md churn(4) by (cases model_data) (simp_all add: len_def)
  have pos: "0 < len df"
    using churn(3) \<open>length (cells churn) = len df\<close> by (cases "cells churn") auto
  define rows where "rows = rows_of model_data"
  define xs where "xs = sample permutation rows"
  have lr: "length rows = len df" by (simp add: rows_def length_rows_of n)
  have hr: "map hd rows = map ?F (cells churn)"
    using map_hd_rows_of[OF hd_md(2)] hd_md(1) churn(4) by (simp add: rows_def)
  have "set (permutation (len df)) = set [0..<len df]" using pm by (rule mset_eq_setD)
  then have ps: "set (permutation (length rows)) \<subseteq> {..<length rows}" by (auto simp: lr)
  have "map hd xs = sample permutation (map hd rows)"
    unfolding xs_def using ps by (rule sample_map)
  then have hx: "map hd xs = sample permutation (map ?F (cells churn))" by (simp only: hr)
  have "length xs = length (permutation (len df))" by (simp add: xs_def sample_def lr)
  also have "\<dots> = len df" using pm by (metis size_mset length_upt diff_zero)
  finally have lx: "length xs = len df" .
  have files: "train_csv out = take (int_of_product lit_0_7 (len df)) xs"
    "validation_csv out
     = take (int_of_product lit_0_9 (len df) - int_of_product lit_0_7 (len df))
         (drop (int_of_product lit_0_7 (len df)) xs)"
    "test_csv out = drop (int_of_product lit_0_9 (len df)) xs"
    unfolding o xs_def rows_def using split_data_files[of permutation model_data]
    by (simp_all only: n)
  have b: "int_of_product lit_0_9 (len df) < len df" using split_points[of "len df"] pos by simp
  have ne: "test_csv out \<noteq> []" using b lx by (simp add: files(3))
  have "hd (test_csv out) \<in> set xs"
    using ne by (metis files(3) hd_in_set in_set_dropD)
  then have "hd (test_csv out) \<in> set rows"
    using sample_subset[of permutation rows, OF ps] by (auto simp: xs_def)
  then have "hd (test_csv out) \<noteq> []"
    using rows_of_nonempty[OF hd_md(2)] by (auto simp: rows_def)
  then have rt: "read_test (test_csv out) = Inr (map hd (test_csv out), map tl (test_csv out))"
    using ne by (intro read_test_Inr)
  have "map hd (train_csv out)
         = take (int_of_product lit_0_7 (len df)) (sample permutation (map ?F (cells churn)))"
    unfolding files(1) take_map[symmetric] hx by (rule refl)
  moreover have "map hd (validation_csv out)
         = take (int_of_product lit_0_9 (len df) - int_of_product lit_0_7 (len df))
             (drop (int_of_product lit_0_7 (len df))
               (sample permutation (map ?F (cells churn))))"
    unfolding files(2) take_map[symmetric] drop_map[symmetric] hx by (rule refl)
  moreover have "map hd (test_csv out)
         = drop (int_of_product lit_0_9 (len df)) (sample permutation (map ?F (cells churn)))"
    unfolding files(3) drop_map[symmetric] hx by (rule refl)
  ultimately show ?thesis using churn(1,2) rt by blast
qed

subsection \<open>The theorems on the example\<close>

lemma example_frame_read_csv: "read_csv_frame example_frame"
  by (simp add: read_csv_frame_def example_frame_def len_def)

lemma example_frame_no_target: "''Churn?_True.'' \<notin> label ` set example_frame"
  by (simp add: example_frame_def)

theorem split_data_partitions_rows_witness:
  "mset (example_permutation (len example_model_data)) = mset [0..<len example_model_data]
   \<and> length (train_csv (split_data example_permutation example_model_data)) = 2
   \<and> length (validation_csv (split_data example_permutation example_model_data)) = 1
   \<and> length (test_csv (split_data example_permutation example_model_data)) = 1
   \<and> train_csv (split_data example_permutation example_model_data)
       @ validation_csv (split_data example_permutation example_model_data)
       @ test_csv (split_data example_permutation example_model_data)
       = sample example_permutation (rows_of example_model_data)
   \<and> mset (train_csv (split_data example_permutation example_model_data))
       + mset (validation_csv (split_data example_permutation example_model_data))
       + mset (test_csv (split_data example_permutation example_model_data))
       = mset (rows_of example_model_data)"
proof -
  have h: "mset (example_permutation (len example_model_data)) = mset [0..<len example_model_data]"
    by (rule example_permutation_mset)
  note t = split_data_partitions_rows
    [where permutation = example_permutation and model_data = example_model_data, OF h]
  have "length (train_csv (split_data example_permutation example_model_data)) = 2"
    using t by (simp only: example_len example_split_points)
  moreover have "length (validation_csv (split_data example_permutation example_model_data)) = 1"
    using t by (simp only: example_len example_split_points)
  moreover have "length (test_csv (split_data example_permutation example_model_data)) = 1"
    using t by (simp only: example_len example_split_points)
  ultimately show ?thesis using h t by blast
qed

theorem preprocess_recipe_witness:
  "preprocess (\<lambda>_. ''?'') example_permutation example_frame = Inr example_outputs
   \<and> (\<exists>selected model_data.
       {''Phone'', ''Day Charge'', ''Eve Charge'', ''Night Charge'', ''Intl Charge''}
         \<subseteq> label ` set example_frame
     \<and> selected
         = map (\<lambda>c. if label c = ''Area Code'' then c\<lparr>is_object := True\<rparr> else c)
             (filter (\<lambda>c. label c \<notin> {''Phone'', ''Day Charge'', ''Eve Charge'',
                                        ''Night Charge'', ''Intl Charge''}) example_frame)
     \<and> set (get_dummies (\<lambda>_. ''?'') selected)
         = {c \<in> set selected. \<not> is_object c}
           \<union> {\<lparr>label = label c @ ''_'' @ py_str (\<lambda>_. ''?'') v, is_object = False,
                cells = map (\<lambda>x. IntV (if x = v then 1 else 0)) (cells c)\<rparr> | c v.
               c \<in> set selected \<and> is_object c \<and> v \<in> set (cells c)}
     \<and> (\<forall>c \<in> set (get_dummies (\<lambda>_. ''?'') selected). \<not> is_object c)
     \<and> model_data
         = filter (\<lambda>c. label c = ''Churn?_True.'') (get_dummies (\<lambda>_. ''?'') selected)
           @ filter (\<lambda>c. label c \<notin> {''Churn?_False.'', ''Churn?_True.''})
               (get_dummies (\<lambda>_. ''?'') selected)
     \<and> train_csv example_outputs
         = take (int_of_product lit_0_7 (len model_data))
             (sample example_permutation (rows_of model_data))
     \<and> validation_csv example_outputs
         = take (int_of_product lit_0_9 (len model_data)
                 - int_of_product lit_0_7 (len model_data))
             (drop (int_of_product lit_0_7 (len model_data))
               (sample example_permutation (rows_of model_data)))
     \<and> test_csv example_outputs
         = drop (int_of_product lit_0_9 (len model_data))
             (sample example_permutation (rows_of model_data)))"
  using example_preprocess preprocess_recipe
      [where permutation = example_permutation and df = example_frame, OF example_preprocess] by (rule conjI)

theorem label_column_first_witness:
  "preprocess (\<lambda>_. ''?'') example_permutation example_frame = Inr example_outputs
   \<and> read_csv_frame example_frame
   \<and> ''Churn?_True.'' \<notin> label ` set example_frame
   \<and> mset (example_permutation (len example_frame)) = mset [0..<len example_frame]
   \<and> (\<exists>churn \<in> set example_frame. label churn = ''Churn?''
     \<and> map hd (train_csv example_outputs)
         = take (int_of_product lit_0_7 (len example_frame))
             (sample example_permutation
               (map (\<lambda>v. IntV (if v = StrV ''True.'' then 1 else 0)) (cells churn)))
     \<and> map hd (validation_csv example_outputs)
         = take (int_of_product lit_0_9 (len example_frame)
                 - int_of_product lit_0_7 (len example_frame))
             (drop (int_of_product lit_0_7 (len example_frame))
               (sample example_permutation
                 (map (\<lambda>v. IntV (if v = StrV ''True.'' then 1 else 0)) (cells churn))))
     \<and> map hd (test_csv example_outputs)
         = drop (int_of_product lit_0_9 (len example_frame))
             (sample example_permutation
               (map (\<lambda>v. IntV (if v = StrV ''True.'' then 1 else 0)) (cells churn)))
     \<and> read_test (test_csv example_outputs)
         = Inr (map hd (test_csv example_outputs), map tl (test_csv example_outputs)))"
  using example_preprocess example_frame_read_csv example_frame_no_target
    example_permutation_mset[of "len example_frame"]
    label_column_first
      [where permutation = example_permutation and df = example_frame,
       OF example_preprocess example_frame_read_csv example_frame_no_target
         example_permutation_mset]
  by (intro conjI)

lemma example_labels:
  "map hd (train_csv example_outputs) = [IntV 1, IntV 0]"
  "map hd (validation_csv example_outputs) = [IntV 1]"
  "read_test (test_csv example_outputs)
   = Inr ([IntV 0],
          [[FloatV (2651 / 10), IntV 1, IntV 0, IntV 0, IntV 0, IntV 1, IntV 0]])"
  by (simp_all add: example_outputs_def read_test_def)

end
